theory Spec2Isabelle
  imports Main "HOL-Library.Char_ord" "HOL-Library.List_Lexorder"
begin

section \<open>Data model (core/models.py)\<close>

text \<open>
  A primary key is an integer; a foreign key to a user stores that user's primary key.
  The many-to-many fields \<open>Recipe.ingredient\<close> and \<open>Recipe.tag\<close> are kept with the recipe
  row as the list of linked primary keys (one entry per row of the link table).
\<close>

record user =
  user_id :: int
  user_email :: string
  user_name :: string
  user_password :: string
  user_is_active :: bool
  user_is_staff :: bool
  user_is_superuser :: bool

record tag =
  tag_id :: int
  tag_user :: int
  tag_name :: string

record ingredient =
  ingredient_id :: int
  ingredient_name :: string
  ingredient_user :: int

record recipe =
  recipe_id :: int
  recipe_user :: int
  recipe_title :: string
  recipe_time :: int
  recipe_price :: int
  recipe_link :: string
  recipe_ingredient :: "int list"
  recipe_tag :: "int list"
  recipe_image :: "string option"

text \<open>
  \<open>recipe_price\<close> is the \<open>DecimalField(max_digits=5, decimal_places=2)\<close> counted in
  hundredths. The database is the four tables, each in storage order.
\<close>

record db =
  users :: "user list"
  tags :: "tag list"
  ingredients :: "ingredient list"
  recipes :: "recipe list"

text \<open>
  The errors the modelled code can end in: Python's \<open>ValueError\<close>, the framework's
  \<open>ValidationError\<close> with the names of the fields in error, and the database's
  \<open>IntegrityError\<close>.
\<close>

datatype error = ValueError | ValidationError "string list" | IntegrityError

text \<open>
  A request carries the authenticated user (as primary key) and the query parameters;
  \<open>query_params.get(k)\<close> is \<open>None\<close> for a missing key.
\<close>

record request =
  request_user :: int
  query_params :: "string \<rightharpoonup> string"

section \<open>Python built-ins used by the views\<close>

text \<open>\<open>s.split(sep)\<close> for a one-character separator: never empty, \<open>''.split(',') == ['']\<close>.\<close>

fun split_on :: "char \<Rightarrow> string \<Rightarrow> string list" where
  "split_on sep [] = [[]]"
| "split_on sep (c # cs) =
     (if c = sep then [] # split_on sep cs
      else (case split_on sep cs of
              w # ws \<Rightarrow> (c # w) # ws
            | [] \<Rightarrow> [[c]]))"

text \<open>
  The strings of the model are ASCII text, and the built-ins are modelled on ASCII text
  only: digits are \<open>0\<close> to \<open>9\<close>, letters \<open>A\<close> to \<open>Z\<close> and \<open>a\<close> to \<open>z\<close>. On text with
  other characters Python also knows further digits, letters and white space, which are
  not modelled. \<open>str.strip()\<close> drops TAB, LF, VT, FF, CR, FS, GS, RS, US and the space
  from both ends.
\<close>

definition py_isspace :: "char \<Rightarrow> bool" where
  "py_isspace c = (of_char c \<in> set [9, 10, 11, 12, 13, 28, 29, 30, 31, 32 :: nat])"

definition py_strip :: "string \<Rightarrow> string" where
  "py_strip s = rev (dropWhile py_isspace (rev (dropWhile py_isspace s)))"

text \<open>
  \<open>int\<close> on ASCII text skips fewer characters at the two ends than \<open>strip\<close> does: TAB,
  LF, VT, FF, CR and the space, not FS to US.
\<close>

definition int_isspace :: "char \<Rightarrow> bool" where
  "int_isspace c = (of_char c \<in> set [9, 10, 11, 12, 13, 32 :: nat])"

definition int_strip :: "string \<Rightarrow> string" where
  "int_strip s = rev (dropWhile int_isspace (rev (dropWhile int_isspace s)))"

definition py_isdigit :: "char \<Rightarrow> bool" where
  "py_isdigit c = (48 \<le> (of_char c :: nat) \<and> (of_char c :: nat) \<le> 57)"

definition digit_value :: "char \<Rightarrow> nat" where
  "digit_value c = of_char c - 48"

text \<open>
  The digits of an integer literal, most significant first; a single underscore may stand
  between two digits.
\<close>

fun py_digits :: "nat \<Rightarrow> string \<Rightarrow> nat option" where
  "py_digits acc [] = Some acc"
| "py_digits acc (c # cs) =
     (if py_isdigit c then py_digits (10 * acc + digit_value c) cs
      else if c = CHR ''_'' then
        (case cs of
           [] \<Rightarrow> None
         | d # ds \<Rightarrow> if py_isdigit d then py_digits acc cs else None)
      else None)"

text \<open>
  \<open>int(s)\<close> for a string: surrounding white space is dropped, one sign is allowed, then
  at least one digit; anything else raises \<open>ValueError\<close>.
\<close>

definition py_int :: "string \<Rightarrow> error + int" where
  "py_int s =
     (let t = int_strip s;
          neg = (case t of [] \<Rightarrow> False | c # _ \<Rightarrow> c = CHR ''-'');
          body = (case t of [] \<Rightarrow> []
                  | c # cs \<Rightarrow> if c = CHR ''-'' \<or> c = CHR ''+'' then cs else t)
      in case body of
           [] \<Rightarrow> Inl ValueError
         | d # _ \<Rightarrow>
             if py_isdigit d then
               (case py_digits 0 body of
                  None \<Rightarrow> Inl ValueError
                | Some n \<Rightarrow> Inr (if neg then - int n else int n))
             else Inl ValueError)"

section \<open>Queryset operations\<close>

text \<open>\<open>queryset.filter(user=u)\<close> on each of the three owned tables.\<close>

definition tag_filter_user :: "int \<Rightarrow> tag list \<Rightarrow> tag list" where
  "tag_filter_user u qs = filter (\<lambda>t. tag_user t = u) qs"

definition ingredient_filter_user :: "int \<Rightarrow> ingredient list \<Rightarrow> ingredient list" where
  "ingredient_filter_user u qs = filter (\<lambda>i. ingredient_user i = u) qs"

definition recipe_filter_user :: "int \<Rightarrow> recipe list \<Rightarrow> recipe list" where
  "recipe_filter_user u qs = filter (\<lambda>r. recipe_user r = u) qs"

text \<open>
  A filter across a many-to-many relation is an inner join with the link table: a row is
  returned once for every link that matches. \<open>Tag.filter(recipe__isnull=False)\<close> gives a
  tag once per recipe linked to it; \<open>Recipe.filter(tag__id__in=ids)\<close> gives a recipe once
  per linked tag whose key is in \<open>ids\<close>, and likewise for ingredients.
\<close>

definition tag_links :: "db \<Rightarrow> tag \<Rightarrow> recipe list" where
  "tag_links d t = filter (\<lambda>r. tag_id t \<in> set (recipe_tag r)) (recipes d)"

definition tag_filter_recipe_notnull :: "db \<Rightarrow> tag list \<Rightarrow> tag list" where
  "tag_filter_recipe_notnull d qs =
     concat (map (\<lambda>t. replicate (length (tag_links d t)) t) qs)"

definition recipe_filter_tag_id_in :: "int list \<Rightarrow> recipe list \<Rightarrow> recipe list" where
  "recipe_filter_tag_id_in ids qs =
     concat (map (\<lambda>r. replicate (length (filter (\<lambda>k. k \<in> set ids) (recipe_tag r))) r) qs)"

definition recipe_filter_ingredient_id_in :: "int list \<Rightarrow> recipe list \<Rightarrow> recipe list" where
  "recipe_filter_ingredient_id_in ids qs =
     concat (map (\<lambda>r. replicate (length (filter (\<lambda>k. k \<in> set ids) (recipe_ingredient r))) r) qs)"

text \<open>\<open>order_by('-name')\<close> sorts by name, largest first; \<open>distinct()\<close> drops repeated rows.\<close>

definition tag_order_by_name_desc :: "tag list \<Rightarrow> tag list" where
  "tag_order_by_name_desc qs = rev (sort_key tag_name qs)"

definition qs_distinct :: "'a list \<Rightarrow> 'a list" where
  "qs_distinct qs = remdups qs"

section \<open>The views (recpie/views.py)\<close>

subsection \<open>TagViewSet\<close>

text \<open>
  \<open>bool(int(self.request.query_params.get('assigned_only', 0)))\<close>: the default \<open>0\<close> is
  already an integer, a string is converted and may raise.
\<close>

definition assigned_only_flag :: "request \<Rightarrow> error + bool" where
  "assigned_only_flag req =
     (case query_params req ''assigned_only'' of
        None \<Rightarrow> Inr False
      | Some s \<Rightarrow> (case py_int s of Inl e \<Rightarrow> Inl e | Inr n \<Rightarrow> Inr (n \<noteq> 0)))"

definition TagViewSet_get_queryset :: "db \<Rightarrow> request \<Rightarrow> error + tag list" where
  "TagViewSet_get_queryset d req =
     (case assigned_only_flag req of
        Inl e \<Rightarrow> Inl e
      | Inr assigned_only \<Rightarrow>
          (let queryset = tags d;
               queryset = (if assigned_only then tag_filter_recipe_notnull d queryset
                           else queryset)
           in Inr (qs_distinct (tag_order_by_name_desc
                     (tag_filter_user (request_user req) queryset)))))"

subsection \<open>IngredientViewSet\<close>

definition IngredientViewSet_get_queryset :: "db \<Rightarrow> request \<Rightarrow> ingredient list" where
  "IngredientViewSet_get_queryset d req =
     ingredient_filter_user (request_user req) (ingredients d)"

subsection \<open>RecipeViewSet\<close>

text \<open>
  \<open>[int(str_id) for str_id in qs.split(',')]\<close>: the first element that \<open>int\<close> rejects
  raises, and no list is returned.
\<close>

fun ints_of :: "string list \<Rightarrow> error + int list" where
  "ints_of [] = Inr []"
| "ints_of (s # ss) =
     (case py_int s of
        Inl e \<Rightarrow> Inl e
      | Inr n \<Rightarrow> (case ints_of ss of Inl e \<Rightarrow> Inl e | Inr ns \<Rightarrow> Inr (n # ns)))"

definition params_to_ints :: "string \<Rightarrow> error + int list" where
  "params_to_ints qs = ints_of (split_on CHR '','' qs)"

text \<open>\<open>if tags:\<close> is Python truthiness: \<open>None\<close> and the empty string are both false.\<close>

definition truthy :: "string option \<Rightarrow> bool" where
  "truthy p = (case p of None \<Rightarrow> False | Some s \<Rightarrow> s \<noteq> [])"

definition param_text :: "string option \<Rightarrow> string" where
  "param_text p = (case p of None \<Rightarrow> [] | Some s \<Rightarrow> s)"

definition RecipeViewSet_get_queryset :: "db \<Rightarrow> request \<Rightarrow> error + recipe list" where
  "RecipeViewSet_get_queryset d req =
     (let tags_p = query_params req ''tag'';
          ingredients_p = query_params req ''ingredient''
      in if truthy tags_p then
           (case params_to_ints (param_text tags_p) of
              Inl e \<Rightarrow> Inl e
            | Inr tags_id \<Rightarrow> Inr (recipe_filter_tag_id_in tags_id (recipes d)))
         else if truthy ingredients_p then
           (case params_to_ints (param_text ingredients_p) of
              Inl e \<Rightarrow> Inl e
            | Inr ingredients_id \<Rightarrow>
                Inr (recipe_filter_ingredient_id_in ingredients_id (recipes d)))
         else Inr (recipe_filter_user (request_user req) (recipes d)))"

text \<open>
  \<open>perform_create\<close> is \<open>serializer.save(user=self.request.user)\<close>: the row gets a new
  primary key and the requesting user as owner, whatever the payload says. The
  argument is the validated name. The new key is taken to be one more than the largest
  key in the table; a database sequence would also pass over the keys of rows deleted
  since, and nothing below rests on the value of a key.
\<close>

definition next_id :: "int list \<Rightarrow> int" where
  "next_id ks = fold max ks 0 + 1"

definition TagViewSet_perform_create :: "db \<Rightarrow> request \<Rightarrow> string \<Rightarrow> db \<times> tag" where
  "TagViewSet_perform_create d req nm =
     (let t = \<lparr>tag_id = next_id (map tag_id (tags d)), tag_user = request_user req,
                tag_name = nm\<rparr>
      in (d\<lparr>tags := tags d @ [t]\<rparr>, t))"

definition IngredientViewSet_perform_create :: "db \<Rightarrow> request \<Rightarrow> string \<Rightarrow> db \<times> ingredient" where
  "IngredientViewSet_perform_create d req nm =
     (let i = \<lparr>ingredient_id = next_id (map ingredient_id (ingredients d)),
                ingredient_name = nm, ingredient_user = request_user req\<rparr>
      in (d\<lparr>ingredients := ingredients d @ [i]\<rparr>, i))"

section \<open>The recipe serializer (recpie/serializers.py)\<close>

text \<open>
  \<open>RecipeSerializer\<close> is a \<open>ModelSerializer\<close> over the fields \<open>id\<close> (read only),
  \<open>title\<close>, \<open>ingredient\<close>, \<open>tag\<close>, \<open>time\<close>, \<open>price\<close> and \<open>link\<close>, with \<open>ingredient\<close> and
  \<open>tag\<close> declared as \<open>PrimaryKeyRelatedField(many=True, queryset=...objects.all())\<close>.
  The class only declares; what the framework's \<open>ModelSerializer\<close> does with the
  declarations and with the model's field options is written out here. The request
  body is modelled after decoding: each field is absent or has a value of its type,
  and \<open>is_form\<close> tells a form-encoded body from a JSON one (the two differ in what an
  absent list field means).
\<close>

record recipe_data =
  is_form :: bool
  data_title :: "string option"
  data_ingredient :: "int list option"
  data_tag :: "int list option"
  data_time :: "int option"
  data_price :: "int option"
  data_link :: "string option"

text \<open>
  Validating one field skips it (it stays out of \<open>validated_data\<close>), rejects it, or
  yields its internal value.
\<close>

datatype 'a validated = Skipped | Invalid | Valid 'a

definition is_invalid :: "'a validated \<Rightarrow> bool" where
  "is_invalid v = (case v of Invalid \<Rightarrow> True | _ \<Rightarrow> False)"

definition to_option :: "'a validated \<Rightarrow> 'a option" where
  "to_option v = (case v of Valid x \<Rightarrow> Some x | _ \<Rightarrow> None)"

text \<open>
  An absent field is skipped under a partial update, an error when required, and skipped
  otherwise. A \<open>CharField\<close> trims white space, rejects a blank value unless
  \<open>allow_blank\<close>, and checks \<open>max_length\<close>.
\<close>

definition char_field :: "nat \<Rightarrow> bool \<Rightarrow> bool \<Rightarrow> bool \<Rightarrow> string option \<Rightarrow> string validated" where
  "char_field max_length required allow_blank partial v =
     (case v of
        None \<Rightarrow> if partial then Skipped else if required then Invalid else Skipped
      | Some s \<Rightarrow>
          if py_strip s = [] then (if allow_blank then Valid [] else Invalid)
          else if max_length < length (py_strip s) then Invalid
          else Valid (py_strip s))"

text \<open>
  \<open>time\<close> is a \<open>PositiveIntegerField\<close> (from 0 to 2147483647, the range of the
  column), \<open>price\<close> a decimal of at most five digits, two of them after the point, so
  at most 99999 hundredths either way. Both are required.
\<close>

definition range_field :: "int \<Rightarrow> int \<Rightarrow> bool \<Rightarrow> int option \<Rightarrow> int validated" where
  "range_field lo hi partial v =
     (case v of
        None \<Rightarrow> if partial then Skipped else Invalid
      | Some n \<Rightarrow> if lo \<le> n \<and> n \<le> hi then Valid n else Invalid)"

text \<open>
  \<open>PrimaryKeyRelatedField(many=True, queryset=Model.objects.all())\<close>: every listed key is
  looked up in the whole table, \<open>pks\<close>, and one key that is not there rejects the field.
  An absent field is skipped under a partial update; otherwise a form-encoded body reads
  it as the empty list and a JSON body lacks a required field.
\<close>

definition related_field :: "int list \<Rightarrow> bool \<Rightarrow> bool \<Rightarrow> int list option \<Rightarrow> int list validated" where
  "related_field pks partial form v =
     (case v of
        None \<Rightarrow> if partial then Skipped else if form then Valid [] else Invalid
      | Some ks \<Rightarrow> if list_all (\<lambda>k. k \<in> set pks) ks then Valid ks else Invalid)"

record recipe_validated =
  v_title :: "string option"
  v_ingredient :: "int list option"
  v_tag :: "int list option"
  v_time :: "int option"
  v_price :: "int option"
  v_link :: "string option"

text \<open>
  \<open>is_valid\<close> validates every field and collects the names of the rejected ones; one
  rejected field makes the whole request a \<open>ValidationError\<close>.
\<close>

definition RecipeSerializer_errors :: "db \<Rightarrow> bool \<Rightarrow> recipe_data \<Rightarrow> string list" where
  "RecipeSerializer_errors d partial x =
     (if is_invalid (char_field 255 True False partial (data_title x)) then [''title''] else []) @
     (if is_invalid (related_field (map ingredient_id (ingredients d)) partial (is_form x)
                       (data_ingredient x)) then [''ingredient''] else []) @
     (if is_invalid (related_field (map tag_id (tags d)) partial (is_form x) (data_tag x))
      then [''tag''] else []) @
     (if is_invalid (range_field 0 2147483647 partial (data_time x)) then [''time''] else []) @
     (if is_invalid (range_field (- 99999) 99999 partial (data_price x)) then [''price''] else []) @
     (if is_invalid (char_field 255 False True partial (data_link x)) then [''link''] else [])"

definition RecipeSerializer_is_valid :: "db \<Rightarrow> bool \<Rightarrow> recipe_data \<Rightarrow> error + recipe_validated" where
  "RecipeSerializer_is_valid d partial x =
     (if RecipeSerializer_errors d partial x \<noteq> [] then
        Inl (ValidationError (RecipeSerializer_errors d partial x))
      else
        Inr \<lparr>v_title = to_option (char_field 255 True False partial (data_title x)),
             v_ingredient = to_option (related_field (map ingredient_id (ingredients d)) partial
                                         (is_form x) (data_ingredient x)),
             v_tag = to_option (related_field (map tag_id (tags d)) partial (is_form x)
                                  (data_tag x)),
             v_time = to_option (range_field 0 2147483647 partial (data_time x)),
             v_price = to_option (range_field (- 99999) 99999 partial (data_price x)),
             v_link = to_option (char_field 255 False True partial (data_link x))\<rparr>)"

text \<open>
  \<open>manager.set(objs)\<close> on a many-to-many field: the links not in \<open>objs\<close> are removed, the
  objects not yet linked are added, each once.
\<close>

definition m2m_set :: "int list \<Rightarrow> int list \<Rightarrow> int list" where
  "m2m_set old new =
     filter (\<lambda>k. k \<in> set new) old @ remdups (filter (\<lambda>k. k \<notin> set old) new)"

definition or_keep :: "'a option \<Rightarrow> 'a \<Rightarrow> 'a" where
  "or_keep v cur = (case v of None \<Rightarrow> cur | Some x \<Rightarrow> x)"

text \<open>
  \<open>ModelSerializer.update\<close>: every key of \<open>validated_data\<close> is written to the instance,
  a many-to-many key through \<open>set\<close>; a field without a key keeps its value.
\<close>

definition ModelSerializer_update :: "recipe \<Rightarrow> recipe_validated \<Rightarrow> recipe" where
  "ModelSerializer_update instance v =
     instance\<lparr>recipe_title := or_keep (v_title v) (recipe_title instance),
              recipe_time := or_keep (v_time v) (recipe_time instance),
              recipe_price := or_keep (v_price v) (recipe_price instance),
              recipe_link := or_keep (v_link v) (recipe_link instance),
              recipe_ingredient :=
                (case v_ingredient v of
                   None \<Rightarrow> recipe_ingredient instance
                 | Some ks \<Rightarrow> m2m_set (recipe_ingredient instance) ks),
              recipe_tag :=
                (case v_tag v of
                   None \<Rightarrow> recipe_tag instance
                 | Some ks \<Rightarrow> m2m_set (recipe_tag instance) ks)\<rparr>"

definition save_recipe :: "db \<Rightarrow> recipe \<Rightarrow> db" where
  "save_recipe d r =
     d\<lparr>recipes := map (\<lambda>r'. if recipe_id r' = recipe_id r then r else r') (recipes d)\<rparr>"

text \<open>
  An update through the serializer (PUT with \<open>partial = False\<close>, PATCH with
  \<open>partial = True\<close>): validate, then write the instance and save it.
\<close>

definition RecipeSerializer_update :: "db \<Rightarrow> recipe \<Rightarrow> bool \<Rightarrow> recipe_data \<Rightarrow> error + db \<times> recipe" where
  "RecipeSerializer_update d instance partial x =
     (case RecipeSerializer_is_valid d partial x of
        Inl e \<Rightarrow> Inl e
      | Inr v \<Rightarrow> Inr (save_recipe d (ModelSerializer_update instance v),
                      ModelSerializer_update instance v))"

text \<open>
  \<open>ModelSerializer.create\<close> with the owner added by \<open>perform_create\<close>
  (\<open>serializer.save(user=self.request.user)\<close>): the row is inserted without its
  many-to-many keys, which are then \<open>set\<close>. \<open>title\<close> and \<open>link\<close> default to the empty string;
  \<open>time\<close> and \<open>price\<close> have no default and must not be null.
\<close>

definition ModelSerializer_create :: "db \<Rightarrow> int \<Rightarrow> recipe_validated \<Rightarrow> error + db \<times> recipe" where
  "ModelSerializer_create d owner v =
     (case (v_time v, v_price v) of
        (Some t, Some p) \<Rightarrow>
          (let r = \<lparr>recipe_id = next_id (map recipe_id (recipes d)), recipe_user = owner,
                     recipe_title = or_keep (v_title v) [], recipe_time = t, recipe_price = p,
                     recipe_link = or_keep (v_link v) [],
                     recipe_ingredient = m2m_set [] (or_keep (v_ingredient v) []),
                     recipe_tag = m2m_set [] (or_keep (v_tag v) []),
                     recipe_image = None\<rparr>
           in Inr (d\<lparr>recipes := recipes d @ [r]\<rparr>, r))
      | _ \<Rightarrow> Inl IntegrityError)"

definition RecipeViewSet_create :: "db \<Rightarrow> request \<Rightarrow> recipe_data \<Rightarrow> error + db \<times> recipe" where
  "RecipeViewSet_create d req x =
     (case RecipeSerializer_is_valid d False x of
        Inl e \<Rightarrow> Inl e
      | Inr v \<Rightarrow> ModelSerializer_create d (request_user req) v)"

section \<open>Users (core/models.py, user/serializer.py)\<close>

text \<open>
  \<open>str.lower()\<close>, on ASCII text: \<open>A\<close> to \<open>Z\<close> become \<open>a\<close> to \<open>z\<close>. And \<open>s.rsplit(sep, 1)\<close>
  when it yields two parts.
\<close>

definition py_lower_char :: "char \<Rightarrow> char" where
  "py_lower_char c =
     (if 65 \<le> (of_char c :: nat) \<and> (of_char c :: nat) \<le> 90 then char_of (of_char c + 32 :: nat)
      else c)"

definition py_lower :: "string \<Rightarrow> string" where
  "py_lower s = map py_lower_char s"

fun rsplit1 :: "char \<Rightarrow> string \<Rightarrow> (string \<times> string) option" where
  "rsplit1 sep [] = None"
| "rsplit1 sep (c # cs) =
     (case rsplit1 sep cs of
        Some (a, b) \<Rightarrow> Some (c # a, b)
      | None \<Rightarrow> if c = sep then Some ([], cs) else None)"

text \<open>
  \<open>BaseUserManager.normalize_email\<close>: the address is stripped and cut at its last \<open>@\<close>,
  and the part after it is lower-cased; an address without \<open>@\<close> is returned as it came.
\<close>

definition normalize_email :: "string \<Rightarrow> string" where
  "normalize_email email =
     (case rsplit1 CHR ''@'' (py_strip email) of
        None \<Rightarrow> email
      | Some (email_name, domain_part) \<Rightarrow> email_name @ ''@'' @ py_lower domain_part)"

text \<open>
  \<open>user.save()\<close> of a new user: the email column is unique. \<open>set_password\<close> stores what
  the password hasher returns; the hasher is the parameter \<open>make_password\<close> (for no
  password it returns an unusable marker). Of the keyword arguments \<open>extra_fields\<close> the
  callers pass \<open>name\<close> at most; a user without one has the empty name.
\<close>

definition insert_user :: "db \<Rightarrow> user \<Rightarrow> error + db \<times> user" where
  "insert_user d u =
     (if user_email u \<in> set (map user_email (users d)) then Inl IntegrityError
      else Inr (d\<lparr>users := users d @ [u]\<rparr>, u))"

definition create_user ::
    "(string option \<Rightarrow> string) \<Rightarrow> db \<Rightarrow> string option \<Rightarrow> string option \<Rightarrow> string option
      \<Rightarrow> error + db \<times> user" where
  "create_user make_password d email password name =
     (case email of
        None \<Rightarrow> Inl ValueError
      | Some e \<Rightarrow>
          if e = [] then Inl ValueError
          else insert_user d
                 \<lparr>user_id = next_id (map user_id (users d)),
                  user_email = normalize_email e,
                  user_name = or_keep name [],
                  user_password = make_password password,
                  user_is_active = True, user_is_staff = False, user_is_superuser = False\<rparr>)"

definition update_user :: "db \<Rightarrow> user \<Rightarrow> db" where
  "update_user d u =
     d\<lparr>users := map (\<lambda>u'. if user_id u' = user_id u then u else u') (users d)\<rparr>"

definition create_superuser ::
    "(string option \<Rightarrow> string) \<Rightarrow> db \<Rightarrow> string option \<Rightarrow> string option \<Rightarrow> error + db \<times> user" where
  "create_superuser make_password d email password =
     (case create_user make_password d email password None of
        Inl e \<Rightarrow> Inl e
      | Inr (d', u) \<Rightarrow>
          Inr (update_user d' (u\<lparr>user_is_superuser := True, user_is_staff := True\<rparr>),
               u\<lparr>user_is_superuser := True, user_is_staff := True\<rparr>))"

text \<open>
  \<open>UserSerializer\<close>: \<open>Meta.fields\<close> is email, name, password, and password is
  \<open>write_only\<close>; the representation (\<open>serializer.data\<close>) holds the fields that are not.
\<close>

definition UserSerializer_fields :: "string list" where
  "UserSerializer_fields = [''email'', ''name'', ''password'']"

definition UserSerializer_write_only :: "string \<Rightarrow> bool" where
  "UserSerializer_write_only f = (f = ''password'')"

definition user_attr :: "user \<Rightarrow> string \<Rightarrow> string" where
  "user_attr u f =
     (if f = ''email'' then user_email u
      else if f = ''name'' then user_name u
      else if f = ''password'' then user_password u
      else [])"

definition UserSerializer_data :: "user \<Rightarrow> (string \<times> string) list" where
  "UserSerializer_data u =
     map (\<lambda>f. (f, user_attr u f)) (filter (\<lambda>f. \<not> UserSerializer_write_only f) UserSerializer_fields)"

text \<open>\<open>create\<close> is \<open>create_user(**validated_data)\<close> with the three validated fields.\<close>

definition UserSerializer_create ::
    "(string option \<Rightarrow> string) \<Rightarrow> db \<Rightarrow> string \<Rightarrow> string \<Rightarrow> string \<Rightarrow> error + db \<times> user" where
  "UserSerializer_create make_password d email name password =
     create_user make_password d (Some email) (Some password) (Some name)"

text \<open>
  \<open>update\<close> pops the password, lets \<open>ModelSerializer.update\<close> write the other validated
  fields, and then, \<open>if password:\<close>, sets the password through \<open>set_password\<close> and saves
  again. The validated fields are given as options.
\<close>

definition UserSerializer_update ::
    "(string option \<Rightarrow> string) \<Rightarrow> db \<Rightarrow> user \<Rightarrow> string option \<Rightarrow> string option
      \<Rightarrow> string option \<Rightarrow> db \<times> user" where
  "UserSerializer_update make_password d instance email name password =
     (let user = instance\<lparr>user_email := or_keep email (user_email instance),
                           user_name := or_keep name (user_name instance)\<rparr>;
          user = (if truthy password then user\<lparr>user_password := make_password password\<rparr>
                  else user)
      in (update_user d user, user))"

section \<open>A small database for the concrete checks\<close>

text \<open>
  Two users, 1 and 2. Tag 1 of user 1 is linked to a recipe of each user, tag 3 to none,
  tag 4 only to the recipe of user 2; that recipe also uses ingredient 1 of user 1.
\<close>

definition demo_tags :: "tag list" where
  "demo_tags =
     [\<lparr>tag_id = 1, tag_user = 1, tag_name = ''vegan''\<rparr>,
      \<lparr>tag_id = 2, tag_user = 2, tag_name = ''dessert''\<rparr>,
      \<lparr>tag_id = 3, tag_user = 1, tag_name = ''breakfast''\<rparr>,
      \<lparr>tag_id = 4, tag_user = 1, tag_name = ''zesty''\<rparr>]"

definition demo_ingredients :: "ingredient list" where
  "demo_ingredients =
     [\<lparr>ingredient_id = 1, ingredient_name = ''salt'', ingredient_user = 1\<rparr>,
      \<lparr>ingredient_id = 2, ingredient_name = ''kale'', ingredient_user = 2\<rparr>]"

definition demo_soup :: recipe where
  "demo_soup =
     \<lparr>recipe_id = 1, recipe_user = 1, recipe_title = ''soup'', recipe_time = 10,
      recipe_price = 350, recipe_link = [], recipe_ingredient = [1], recipe_tag = [1],
      recipe_image = None\<rparr>"

definition demo_cake :: recipe where
  "demo_cake =
     \<lparr>recipe_id = 2, recipe_user = 2, recipe_title = ''cake'', recipe_time = 30,
      recipe_price = 500, recipe_link = [], recipe_ingredient = [1, 2],
      recipe_tag = [1, 2, 4], recipe_image = None\<rparr>"

definition demo_db :: db where
  "demo_db = \<lparr>users = [], tags = demo_tags, ingredients = demo_ingredients,
               recipes = [demo_soup, demo_cake]\<rparr>"

definition demo_request :: "int \<Rightarrow> (string \<times> string) list \<Rightarrow> request" where
  "demo_request u ps = \<lparr>request_user = u, query_params = map_of ps\<rparr>"

text \<open>A stand-in for the password hasher, for the concrete checks only.\<close>

definition demo_hasher :: "string option \<Rightarrow> string" where
  "demo_hasher p = (case p of None \<Rightarrow> ''!'' | Some s \<Rightarrow> ''sha$'' @ rev s)"

text \<open>
  Three request bodies: a full update, a partial update that names the title only, and
  a new recipe, with the title to be given, whose id lists name rows of user 1.
\<close>

definition demo_put :: recipe_data where
  "demo_put =
     \<lparr>is_form = False, data_title = Some ''torte'', data_ingredient = Some [2],
      data_tag = Some [3], data_time = Some 45, data_price = Some 700, data_link = None\<rparr>"

definition demo_patch :: recipe_data where
  "demo_patch =
     \<lparr>is_form = False, data_title = Some ''stew'', data_ingredient = None,
      data_tag = None, data_time = None, data_price = None, data_link = None\<rparr>"

definition demo_post :: "string \<Rightarrow> recipe_data" where
  "demo_post title =
     \<lparr>is_form = False, data_title = Some title, data_ingredient = Some [1],
      data_tag = Some [1, 4], data_time = Some 20, data_price = Some 999, data_link = None\<rparr>"

text \<open>The recipes that these requests are expected to leave behind.\<close>

definition demo_torte :: recipe where
  "demo_torte =
     \<lparr>recipe_id = 2, recipe_user = 2, recipe_title = ''torte'', recipe_time = 45,
      recipe_price = 700, recipe_link = [], recipe_ingredient = [2], recipe_tag = [3],
      recipe_image = None\<rparr>"

definition demo_stew :: recipe where
  "demo_stew =
     \<lparr>recipe_id = 1, recipe_user = 1, recipe_title = ''stew'', recipe_time = 10,
      recipe_price = 350, recipe_link = [], recipe_ingredient = [1], recipe_tag = [1],
      recipe_image = None\<rparr>"

definition demo_pie :: recipe where
  "demo_pie =
     \<lparr>recipe_id = 3, recipe_user = 2, recipe_title = ''pie'', recipe_time = 20,
      recipe_price = 999, recipe_link = [], recipe_ingredient = [1], recipe_tag = [1, 4],
      recipe_image = None\<rparr>"

section \<open>What the queryset operations return\<close>

lemma set_tag_filter_recipe_notnull:
  "set (tag_filter_recipe_notnull d qs) =
     {t \<in> set qs. \<exists>r\<in>set (recipes d). tag_id t \<in> set (recipe_tag r)}"
  by (auto simp: tag_filter_recipe_notnull_def tag_links_def filter_empty_conv)



lemma set_tag_listing:
  "set (qs_distinct (tag_order_by_name_desc (tag_filter_user u qs))) =
     {t \<in> set qs. tag_user t = u}"
  by (auto simp: qs_distinct_def tag_order_by_name_desc_def tag_filter_user_def)

lemma sorted_wrt_remdups: "sorted_wrt P xs \<Longrightarrow> sorted_wrt P (remdups xs)"
  by (induction xs) auto

lemma sorted_tag_order_by_name_desc:
  "sorted_wrt (\<lambda>x y. tag_name y \<le> tag_name x) (tag_order_by_name_desc qs)"
proof -
  have "sorted (map tag_name (sort_key tag_name qs))" by (rule sorted_sort_key)
  then have "sorted_wrt (\<lambda>x y. tag_name x \<le> tag_name y) (sort_key tag_name qs)"
    by (simp add: sorted_wrt_map)
  then show ?thesis
    by (simp add: tag_order_by_name_desc_def sorted_wrt_rev)
qed

text \<open>The empty string has no integer in it, so a parameter that parses is not empty.\<close>

lemma params_to_ints_nonempty: "params_to_ints s = Inr ids \<Longrightarrow> s \<noteq> []"
  by (auto simp: params_to_ints_def py_int_def int_strip_def)

lemma RecipeViewSet_create_owner:
  "RecipeViewSet_create d req x = Inr (d', r) \<Longrightarrow> recipe_user r = request_user req"
  by (auto simp: RecipeViewSet_create_def ModelSerializer_create_def Let_def
           split: sum.splits option.splits)

section \<open>Listing without query parameters\<close>

text \<open>
  C1. Let user U1 (the user of \<open>req1\<close>) differ from user U2 (the user of \<open>req2\<close>), and let
  \<open>req2\<close> carry no query parameter. On every database the tag, ingredient and recipe
  lists of \<open>req2\<close> are returned, each holds only rows whose owner is U2, and no tag,
  ingredient or recipe that U1 created (through \<open>perform_create\<close>, which stores the
  creator as owner) is in them.
\<close>

theorem default_lists_owner_scoped:
  assumes "query_params req2 = Map.empty"
    and "request_user req1 \<noteq> request_user req2"
  shows "\<exists>ts rs.
           TagViewSet_get_queryset d req2 = Inr ts \<and>
           RecipeViewSet_get_queryset d req2 = Inr rs \<and>
           (\<forall>t\<in>set ts. tag_user t = request_user req2) \<and>
           (\<forall>i\<in>set (IngredientViewSet_get_queryset d req2).
              ingredient_user i = request_user req2) \<and>
           (\<forall>r\<in>set rs. recipe_user r = request_user req2) \<and>
           (\<forall>d0 nm. snd (TagViewSet_perform_create d0 req1 nm) \<notin> set ts) \<and>
           (\<forall>d0 nm. snd (IngredientViewSet_perform_create d0 req1 nm)
              \<notin> set (IngredientViewSet_get_queryset d req2)) \<and>
           (\<forall>d0 x d1 r. RecipeViewSet_create d0 req1 x = Inr (d1, r) \<longrightarrow> r \<notin> set rs)"
proof -
  let ?ts = "qs_distinct (tag_order_by_name_desc (tag_filter_user (request_user req2) (tags d)))"
  let ?rs = "recipe_filter_user (request_user req2) (recipes d)"
  have t: "TagViewSet_get_queryset d req2 = Inr ?ts"
    using assms(1) by (simp add: TagViewSet_get_queryset_def assigned_only_flag_def)
  have r: "RecipeViewSet_get_queryset d req2 = Inr ?rs"
    using assms(1) by (simp add: RecipeViewSet_get_queryset_def truthy_def)
  have ot: "\<forall>t\<in>set ?ts. tag_user t = request_user req2"
    by (simp add: set_tag_listing)
  have oi: "\<forall>i\<in>set (IngredientViewSet_get_queryset d req2). ingredient_user i = request_user req2"
    by (simp add: IngredientViewSet_get_queryset_def ingredient_filter_user_def)
  have orr: "\<forall>r\<in>set ?rs. recipe_user r = request_user req2"
    by (simp add: recipe_filter_user_def)
  have ct: "\<forall>d0 nm. snd (TagViewSet_perform_create d0 req1 nm) \<notin> set ?ts"
    using assms(2) ot by (auto simp: TagViewSet_perform_create_def Let_def)
  have ci: "\<forall>d0 nm. snd (IngredientViewSet_perform_create d0 req1 nm)
              \<notin> set (IngredientViewSet_get_queryset d req2)"
    using assms(2) oi by (auto simp: IngredientViewSet_perform_create_def Let_def)
  have cr: "\<forall>d0 x d1 r. RecipeViewSet_create d0 req1 x = Inr (d1, r) \<longrightarrow> r \<notin> set ?rs"
    using assms(2) orr by (auto dest: RecipeViewSet_create_owner)
  show ?thesis by (intro exI[of _ ?ts] exI[of _ ?rs] conjI t r ot oi orr ct ci cr)
qed

text \<open>User 2 lists the small database; user 1 is the other user.\<close>

theorem default_lists_owner_scoped_witness:
  "query_params (demo_request 2 []) = Map.empty \<and>
   request_user (demo_request 1 []) \<noteq> request_user (demo_request 2 []) \<and>
   (\<exists>ts rs.
      TagViewSet_get_queryset demo_db (demo_request 2 []) = Inr ts \<and>
      RecipeViewSet_get_queryset demo_db (demo_request 2 []) = Inr rs \<and>
      (\<forall>t\<in>set ts. tag_user t = request_user (demo_request 2 [])) \<and>
      (\<forall>i\<in>set (IngredientViewSet_get_queryset demo_db (demo_request 2 [])).
         ingredient_user i = request_user (demo_request 2 [])) \<and>
      (\<forall>r\<in>set rs. recipe_user r = request_user (demo_request 2 [])) \<and>
      (\<forall>d0 nm. snd (TagViewSet_perform_create d0 (demo_request 1 []) nm) \<notin> set ts) \<and>
      (\<forall>d0 nm. snd (IngredientViewSet_perform_create d0 (demo_request 1 []) nm)
         \<notin> set (IngredientViewSet_get_queryset demo_db (demo_request 2 []))) \<and>
      (\<forall>d0 x d1 r. RecipeViewSet_create d0 (demo_request 1 []) x = Inr (d1, r)
         \<longrightarrow> r \<notin> set rs))"
proof -
  have a: "query_params (demo_request 2 []) = Map.empty"
    by (simp add: demo_request_def)
  have b: "request_user (demo_request 1 []) \<noteq> request_user (demo_request 2 [])"
    by (simp add: demo_request_def)
  show ?thesis
    by (intro conjI a b default_lists_owner_scoped [OF a b])
qed

text \<open>What the three lists are there: the one tag, ingredient and recipe of user 2.\<close>

lemma demo_default_lists:
  "TagViewSet_get_queryset demo_db (demo_request 2 []) =
     Inr [\<lparr>tag_id = 2, tag_user = 2, tag_name = ''dessert''\<rparr>]"
  "IngredientViewSet_get_queryset demo_db (demo_request 2 []) =
     [\<lparr>ingredient_id = 2, ingredient_name = ''kale'', ingredient_user = 2\<rparr>]"
  "RecipeViewSet_get_queryset demo_db (demo_request 2 []) = Inr [demo_cake]"
  by code_simp+

section \<open>Recipe list filters\<close>




text \<open>
  The filter paths end without \<open>distinct()\<close>, which the tag list has: a recipe with two
  tags among the ids asked for is returned twice.
\<close>

lemma demo_filter_repeats:
  "RecipeViewSet_get_queryset demo_db (demo_request 1 [(''tag'', ''2,4'')]) =
     Inr [demo_cake, demo_cake]"
  "\<not> distinct [demo_cake, demo_cake]"
  by code_simp+

section \<open>Tag list\<close>

text \<open>
  Whatever the flag is, the tag list is returned: it holds the tags of the requesting
  user, restricted under the flag to those that some recipe links to, each once and
  with names that never increase along the list.
\<close>

lemma tag_list_by_flag:
  assumes "assigned_only_flag req = Inr b"
  shows "\<exists>ts. TagViewSet_get_queryset d req = Inr ts \<and>
           set ts = {t \<in> set (tags d). tag_user t = request_user req \<and>
                       (b \<longrightarrow> (\<exists>r\<in>set (recipes d). tag_id t \<in> set (recipe_tag r)))} \<and>
           distinct ts \<and>
           sorted_wrt (\<lambda>x y. tag_name y \<le> tag_name x) ts"
proof -
  let ?qs = "if b then tag_filter_recipe_notnull d (tags d) else tags d"
  let ?ts = "qs_distinct (tag_order_by_name_desc (tag_filter_user (request_user req) ?qs))"
  have 1: "TagViewSet_get_queryset d req = Inr ?ts"
    using assms by (simp add: TagViewSet_get_queryset_def)
  have 2: "set ?ts = {t \<in> set (tags d). tag_user t = request_user req \<and>
                       (b \<longrightarrow> (\<exists>r\<in>set (recipes d). tag_id t \<in> set (recipe_tag r)))}"
    by (auto simp: set_tag_listing set_tag_filter_recipe_notnull)
  have 3: "distinct ?ts" by (simp add: qs_distinct_def)
  have 4: "sorted_wrt (\<lambda>x y. tag_name y \<le> tag_name x) ?ts"
    unfolding qs_distinct_def by (rule sorted_wrt_remdups) (rule sorted_tag_order_by_name_desc)
  show ?thesis by (intro exI[of _ ?ts] conjI 1 2 3 4)
qed

text \<open>
  C6. A tag list request whose \<open>assigned_only\<close> parameter reads as an integer other than
  zero returns exactly the tags owned by the requesting user that at least one recipe,
  of whichever owner, links to. A request without the parameter, or whose parameter
  reads as zero, returns exactly the tags owned by the requesting user. In both cases
  no tag is in the result twice, and the names never increase along the result (it is
  ordered by name, descending).
\<close>

theorem tag_list_assigned_only:
  "(query_params req ''assigned_only'' = Some s \<and> py_int s = Inr n \<and> n \<noteq> 0 \<longrightarrow>
      (\<exists>ts. TagViewSet_get_queryset d req = Inr ts \<and>
         set ts = {t \<in> set (tags d). tag_user t = request_user req \<and>
                     (\<exists>r\<in>set (recipes d). tag_id t \<in> set (recipe_tag r))} \<and>
         distinct ts \<and>
         sorted_wrt (\<lambda>x y. tag_name y \<le> tag_name x) ts)) \<and>
   (query_params req ''assigned_only'' = None \<or>
    query_params req ''assigned_only'' = Some s \<and> py_int s = Inr 0 \<longrightarrow>
      (\<exists>ts. TagViewSet_get_queryset d req = Inr ts \<and>
         set ts = {t \<in> set (tags d). tag_user t = request_user req} \<and>
         distinct ts \<and>
         sorted_wrt (\<lambda>x y. tag_name y \<le> tag_name x) ts))"
proof (intro conjI impI)
  assume "query_params req ''assigned_only'' = Some s \<and> py_int s = Inr n \<and> n \<noteq> 0"
  then have "assigned_only_flag req = Inr True"
    by (simp add: assigned_only_flag_def)
  from tag_list_by_flag [OF this, of d]
  show "\<exists>ts. TagViewSet_get_queryset d req = Inr ts \<and>
         set ts = {t \<in> set (tags d). tag_user t = request_user req \<and>
                     (\<exists>r\<in>set (recipes d). tag_id t \<in> set (recipe_tag r))} \<and>
         distinct ts \<and>
         sorted_wrt (\<lambda>x y. tag_name y \<le> tag_name x) ts"
    by simp
next
  assume "query_params req ''assigned_only'' = None \<or>
    query_params req ''assigned_only'' = Some s \<and> py_int s = Inr 0"
  then have "assigned_only_flag req = Inr False"
    by (auto simp: assigned_only_flag_def)
  from tag_list_by_flag [OF this, of d]
  show "\<exists>ts. TagViewSet_get_queryset d req = Inr ts \<and>
         set ts = {t \<in> set (tags d). tag_user t = request_user req} \<and>
         distinct ts \<and>
         sorted_wrt (\<lambda>x y. tag_name y \<le> tag_name x) ts"
    by simp
qed

text \<open>
  User 1 asks for assigned tags only: of the three tags of user 1, tag 1 is linked to
  two recipes and tag 4 only to the recipe of user 2, and both are listed once, in the
  order zesty, vegan. Without the parameter, and with \<open>assigned_only=0\<close>, the unlinked
  tag is listed too.
\<close>

theorem tag_list_assigned_only_witness:
  "query_params (demo_request 1 [(''assigned_only'', ''1'')]) ''assigned_only'' = Some ''1'' \<and>
   py_int ''1'' = Inr 1 \<and>
   (1 :: int) \<noteq> 0 \<and>
   TagViewSet_get_queryset demo_db (demo_request 1 [(''assigned_only'', ''1'')]) =
     Inr [\<lparr>tag_id = 4, tag_user = 1, tag_name = ''zesty''\<rparr>,
          \<lparr>tag_id = 1, tag_user = 1, tag_name = ''vegan''\<rparr>] \<and>
   (\<exists>ts. TagViewSet_get_queryset demo_db (demo_request 1 [(''assigned_only'', ''1'')]) = Inr ts \<and>
      set ts = {t \<in> set (tags demo_db).
                  tag_user t = request_user (demo_request 1 [(''assigned_only'', ''1'')]) \<and>
                  (\<exists>r\<in>set (recipes demo_db). tag_id t \<in> set (recipe_tag r))} \<and>
      distinct ts \<and>
      sorted_wrt (\<lambda>x y. tag_name y \<le> tag_name x) ts) \<and>
   query_params (demo_request 1 []) ''assigned_only'' = None \<and>
   TagViewSet_get_queryset demo_db (demo_request 1 []) =
     Inr [\<lparr>tag_id = 4, tag_user = 1, tag_name = ''zesty''\<rparr>,
          \<lparr>tag_id = 1, tag_user = 1, tag_name = ''vegan''\<rparr>,
          \<lparr>tag_id = 3, tag_user = 1, tag_name = ''breakfast''\<rparr>] \<and>
   (\<exists>ts. TagViewSet_get_queryset demo_db (demo_request 1 []) = Inr ts \<and>
      set ts = {t \<in> set (tags demo_db). tag_user t = request_user (demo_request 1 [])} \<and>
      distinct ts \<and>
      sorted_wrt (\<lambda>x y. tag_name y \<le> tag_name x) ts) \<and>
   query_params (demo_request 1 [(''assigned_only'', ''0'')]) ''assigned_only'' = Some ''0'' \<and>
   py_int ''0'' = Inr 0 \<and>
   (\<exists>ts. TagViewSet_get_queryset demo_db (demo_request 1 [(''assigned_only'', ''0'')]) = Inr ts \<and>
      set ts = {t \<in> set (tags demo_db).
                  tag_user t = request_user (demo_request 1 [(''assigned_only'', ''0'')])} \<and>
      distinct ts \<and>
      sorted_wrt (\<lambda>x y. tag_name y \<le> tag_name x) ts)"
proof -
  let ?r1 = "demo_request 1 [(''assigned_only'', ''1'')]"
  let ?rz = "demo_request 1 [(''assigned_only'', ''0'')]"
  let ?r = "demo_request 1 []"
  have a1: "query_params ?r1 ''assigned_only'' = Some ''1''" by code_simp
  have a2: "py_int ''1'' = Inr 1" by code_simp
  have a3: "(1 :: int) \<noteq> 0" by simp
  have a4: "TagViewSet_get_queryset demo_db ?r1 =
      Inr [\<lparr>tag_id = 4, tag_user = 1, tag_name = ''zesty''\<rparr>,
           \<lparr>tag_id = 1, tag_user = 1, tag_name = ''vegan''\<rparr>]"
    by code_simp
  note c1 = tag_list_assigned_only [of ?r1 "''1''" 1 demo_db, THEN conjunct1, rule_format,
      OF conjI [OF a1 conjI [OF a2 a3]]]
  have b1: "query_params ?r ''assigned_only'' = None" by code_simp
  have b2: "TagViewSet_get_queryset demo_db ?r =
      Inr [\<lparr>tag_id = 4, tag_user = 1, tag_name = ''zesty''\<rparr>,
           \<lparr>tag_id = 1, tag_user = 1, tag_name = ''vegan''\<rparr>,
           \<lparr>tag_id = 3, tag_user = 1, tag_name = ''breakfast''\<rparr>]"
    by code_simp
  note c2 = tag_list_assigned_only [of ?r _ _ demo_db, THEN conjunct2, rule_format,
      OF disjI1 [OF b1]]
  have e1: "query_params ?rz ''assigned_only'' = Some ''0''" by code_simp
  have e2: "py_int ''0'' = Inr 0" by code_simp
  note c3 = tag_list_assigned_only [of ?rz "''0''" _ demo_db, THEN conjunct2, rule_format,
      OF disjI2 [OF conjI [OF e1 e2]]]
  show ?thesis by (intro conjI a1 a2 a3 a4 c1 b1 b2 c2 e1 e2 c3)
qed

text \<open>A parameter that is no integer raises.\<close>

lemma demo_tag_list_error:
  "TagViewSet_get_queryset demo_db (demo_request 1 [(''assigned_only'', ''yes'')]) =
     Inl ValueError"
  by code_simp

section \<open>Parsing the id lists\<close>

text \<open>\<open>int\<close> raises nothing but \<open>ValueError\<close>, and so does the list comprehension over it.\<close>

lemma py_int_error: "py_int s = Inl e \<Longrightarrow> e = ValueError"
  by (auto simp: py_int_def Let_def split: list.splits option.splits if_splits)

text \<open>
  \<open>int\<close> at work: white space around the digits, a sign and an underscore between digits
  are accepted; a separator character FS before the digits, an empty string and a
  doubled underscore are not.
\<close>

lemma py_int_examples:
  "py_int '' 12 '' = Inr 12"
  "py_int ''-3'' = Inr (- 3)"
  "py_int ''+1_000'' = Inr 1000"
  "py_int [CHR 0x1C, CHR ''1''] = Inl ValueError"
  "py_int [] = Inl ValueError"
  "py_int ''1__0'' = Inl ValueError"
  by code_simp+

lemma py_int_cases: "py_int s = Inl ValueError \<or> (\<exists>n. py_int s = Inr n)"
  by (cases "py_int s") (auto dest: py_int_error)

lemma ints_of_error: "ints_of ss = Inl e \<Longrightarrow> e = ValueError"
  by (induction ss arbitrary: e) (auto split: sum.splits dest: py_int_error)

lemma ints_of_Inl_iff:
  "ints_of ss = Inl ValueError \<longleftrightarrow> (\<exists>s\<in>set ss. py_int s = Inl ValueError)"
proof (induction ss)
  case Nil
  show ?case by simp
next
  case (Cons s ss)
  show ?case
  proof (cases "py_int s")
    case (Inl e)
    then have "e = ValueError" by (rule py_int_error)
    with Inl show ?thesis by simp
  next
    case (Inr n)
    with Cons show ?thesis by (auto split: sum.splits dest: ints_of_error)
  qed
qed

lemma ints_of_Inr_iff:
  "(\<exists>ns. ints_of ss = Inr ns) \<longleftrightarrow> (\<forall>s\<in>set ss. \<exists>n. py_int s = Inr n)"
proof -
  have "(\<exists>ns. ints_of ss = Inr ns) \<longleftrightarrow> ints_of ss \<noteq> Inl ValueError"
    by (cases "ints_of ss") (auto dest: ints_of_error)
  also have "\<dots> \<longleftrightarrow> (\<forall>s\<in>set ss. py_int s \<noteq> Inl ValueError)"
    by (simp add: ints_of_Inl_iff)
  also have "\<dots> \<longleftrightarrow> (\<forall>s\<in>set ss. \<exists>n. py_int s = Inr n)"
    using py_int_cases by (metis sum.distinct(1))
  finally show ?thesis .
qed

text \<open>The three branches of \<open>RecipeViewSet.get_queryset\<close>.\<close>

lemma get_queryset_tag_branch:
  "truthy (query_params req ''tag'') \<Longrightarrow>
   RecipeViewSet_get_queryset d req =
     (case params_to_ints (param_text (query_params req ''tag'')) of
        Inl e \<Rightarrow> Inl e
      | Inr ids \<Rightarrow> Inr (recipe_filter_tag_id_in ids (recipes d)))"
  by (simp add: RecipeViewSet_get_queryset_def)

lemma get_queryset_ingredient_branch:
  "\<not> truthy (query_params req ''tag'') \<Longrightarrow> truthy (query_params req ''ingredient'') \<Longrightarrow>
   RecipeViewSet_get_queryset d req =
     (case params_to_ints (param_text (query_params req ''ingredient'')) of
        Inl e \<Rightarrow> Inl e
      | Inr ids \<Rightarrow> Inr (recipe_filter_ingredient_id_in ids (recipes d)))"
  by (simp add: RecipeViewSet_get_queryset_def)

lemma get_queryset_owner_branch:
  "\<not> truthy (query_params req ''tag'') \<Longrightarrow> \<not> truthy (query_params req ''ingredient'') \<Longrightarrow>
   RecipeViewSet_get_queryset d req =
     Inr (filter (\<lambda>r. recipe_user r = request_user req) (recipes d))"
  by (simp add: RecipeViewSet_get_queryset_def recipe_filter_user_def)

lemma case_sum_Inl_iff:
  "(case x of Inl e \<Rightarrow> Inl e | Inr v \<Rightarrow> Inr (f v)) = Inl ValueError \<longleftrightarrow> x = Inl ValueError"
  by (cases x) auto

lemma case_sum_Inr_iff:
  "(\<exists>rs. (case x of Inl e \<Rightarrow> Inl e | Inr v \<Rightarrow> Inr (f v)) = Inr rs) \<longleftrightarrow> (\<exists>v. x = Inr v)"
  by (cases x) auto

section \<open>Which lists are scoped by owner\<close>

text \<open>
  C3, amended. The ingredient list is the ingredient table filtered by the requesting
  user, and the recipe list without a (non-empty) \<open>tag\<close> or \<open>ingredient\<close> parameter is
  the recipe table filtered by the requesting user: both are scoped by owner, as the tag
  list is. Only the two filter paths of the recipe list are not: with a non-empty \<open>tag\<close>
  or \<open>ingredient\<close> parameter the result is the same for every requesting user.
\<close>

theorem listing_owner_scoping:
  "IngredientViewSet_get_queryset d req =
     filter (\<lambda>i. ingredient_user i = request_user req) (ingredients d) \<and>
   (\<not> truthy (query_params req ''tag'') \<and> \<not> truthy (query_params req ''ingredient'') \<longrightarrow>
      RecipeViewSet_get_queryset d req =
        Inr (filter (\<lambda>r. recipe_user r = request_user req) (recipes d))) \<and>
   (TagViewSet_get_queryset d req = Inr ts \<longrightarrow> (\<forall>t\<in>set ts. tag_user t = request_user req)) \<and>
   (truthy (query_params req ''tag'') \<or> truthy (query_params req ''ingredient'') \<longrightarrow>
      RecipeViewSet_get_queryset d (req\<lparr>request_user := u\<rparr>) = RecipeViewSet_get_queryset d req)"
proof (intro conjI impI)
  show "IngredientViewSet_get_queryset d req =
     filter (\<lambda>i. ingredient_user i = request_user req) (ingredients d)"
    by (simp add: IngredientViewSet_get_queryset_def ingredient_filter_user_def)
next
  assume "\<not> truthy (query_params req ''tag'') \<and> \<not> truthy (query_params req ''ingredient'')"
  then show "RecipeViewSet_get_queryset d req =
        Inr (filter (\<lambda>r. recipe_user r = request_user req) (recipes d))"
    by (simp add: get_queryset_owner_branch)
next
  assume "TagViewSet_get_queryset d req = Inr ts"
  then show "\<forall>t\<in>set ts. tag_user t = request_user req"
    by (auto simp: TagViewSet_get_queryset_def set_tag_listing Let_def split: sum.splits)
next
  assume "truthy (query_params req ''tag'') \<or> truthy (query_params req ''ingredient'')"
  then show "RecipeViewSet_get_queryset d (req\<lparr>request_user := u\<rparr>) =
      RecipeViewSet_get_queryset d req"
    by (auto simp: RecipeViewSet_get_queryset_def Let_def)
qed

text \<open>
  User 2 lists recipes and tags without parameters, and then filters recipes by tag 1;
  user 1 gets the same filtered list.
\<close>

theorem listing_owner_scoping_witness:
  "\<not> truthy (query_params (demo_request 2 []) ''tag'') \<and>
   \<not> truthy (query_params (demo_request 2 []) ''ingredient'') \<and>
   RecipeViewSet_get_queryset demo_db (demo_request 2 []) =
     Inr (filter (\<lambda>r. recipe_user r = request_user (demo_request 2 [])) (recipes demo_db)) \<and>
   TagViewSet_get_queryset demo_db (demo_request 2 []) =
     Inr [\<lparr>tag_id = 2, tag_user = 2, tag_name = ''dessert''\<rparr>] \<and>
   tag_user \<lparr>tag_id = 2, tag_user = 2, tag_name = ''dessert''\<rparr> = request_user (demo_request 2 []) \<and>
   truthy (query_params (demo_request 2 [(''tag'', ''1'')]) ''tag'') \<and>
   RecipeViewSet_get_queryset demo_db ((demo_request 2 [(''tag'', ''1'')])\<lparr>request_user := 1\<rparr>) =
     RecipeViewSet_get_queryset demo_db (demo_request 2 [(''tag'', ''1'')])"
proof -
  let ?r = "demo_request 2 []"
  let ?f = "demo_request 2 [(''tag'', ''1'')]"
  have a1: "\<not> truthy (query_params ?r ''tag'')" by code_simp
  have a2: "\<not> truthy (query_params ?r ''ingredient'')" by code_simp
  from listing_owner_scoping [of demo_db ?r] a1 a2
  have c1: "RecipeViewSet_get_queryset demo_db ?r =
      Inr (filter (\<lambda>r. recipe_user r = request_user ?r) (recipes demo_db))"
    by blast
  have b1: "TagViewSet_get_queryset demo_db ?r =
      Inr [\<lparr>tag_id = 2, tag_user = 2, tag_name = ''dessert''\<rparr>]"
    by code_simp
  from listing_owner_scoping [of demo_db ?r "[\<lparr>tag_id = 2, tag_user = 2, tag_name = ''dessert''\<rparr>]"] b1
  have c2: "tag_user \<lparr>tag_id = 2, tag_user = 2, tag_name = ''dessert''\<rparr> = request_user ?r"
    by simp
  have d1: "truthy (query_params ?f ''tag'')" by code_simp
  from listing_owner_scoping [of demo_db ?f _ 1] d1
  have c3: "RecipeViewSet_get_queryset demo_db (?f\<lparr>request_user := 1\<rparr>) =
      RecipeViewSet_get_queryset demo_db ?f"
    by blast
  show ?thesis by (intro conjI a1 a2 c1 b1 c2 d1 c3)
qed

lemma demo_filtered_lists:
  "RecipeViewSet_get_queryset demo_db (demo_request 2 [(''tag'', ''1'')]) =
     Inr [demo_soup, demo_cake]"
  "RecipeViewSet_get_queryset demo_db (demo_request 1 [(''ingredient'', ''2'')]) =
     Inr [demo_cake]"
  by code_simp+

text \<open>
  The claim as it was stated, that the ingredient list and the unfiltered recipe list
  are not filtered by owner, fails on the small database: user 2 does not get the
  ingredient and the recipe of user 1, although both are in the tables.
\<close>

theorem unscoped_listing_counterexample:
  "\<lparr>ingredient_id = 1, ingredient_name = ''salt'', ingredient_user = 1\<rparr>
     \<in> set (ingredients demo_db) \<and>
   IngredientViewSet_get_queryset demo_db (demo_request 2 []) =
     [\<lparr>ingredient_id = 2, ingredient_name = ''kale'', ingredient_user = 2\<rparr>] \<and>
   IngredientViewSet_get_queryset demo_db (demo_request 2 []) \<noteq> ingredients demo_db \<and>
   demo_soup \<in> set (recipes demo_db) \<and>
   RecipeViewSet_get_queryset demo_db (demo_request 2 []) = Inr [demo_cake] \<and>
   RecipeViewSet_get_queryset demo_db (demo_request 2 []) \<noteq> Inr (recipes demo_db)"
  by code_simp

section \<open>Partiality of the recipe list\<close>

text \<open>
  C10, amended. \<open>_params_to_ints\<close> is applied to one parameter only: to \<open>tag\<close> when it is
  not empty, and otherwise to \<open>ingredient\<close> when that is not empty. The request ends in
  \<open>ValueError\<close> exactly when an element of that parameter, split at the commas, is
  rejected by \<open>int\<close>, and returns a list exactly when \<open>int\<close> accepts every element; the
  other parameter is not read. With both parameters empty or absent the request returns
  the recipes of the requesting user. The error is never a \<open>ValidationError\<close>. An empty
  parameter is treated as an absent one.
\<close>

theorem recipe_list_parsing_partial:
  "(truthy (query_params req ''tag'') \<longrightarrow>
      (RecipeViewSet_get_queryset d req = Inl ValueError \<longleftrightarrow>
         (\<exists>e\<in>set (split_on CHR '','' (param_text (query_params req ''tag''))).
            py_int e = Inl ValueError)) \<and>
      ((\<exists>rs. RecipeViewSet_get_queryset d req = Inr rs) \<longleftrightarrow>
         (\<forall>e\<in>set (split_on CHR '','' (param_text (query_params req ''tag''))).
            \<exists>n. py_int e = Inr n))) \<and>
   (\<not> truthy (query_params req ''tag'') \<and> truthy (query_params req ''ingredient'') \<longrightarrow>
      (RecipeViewSet_get_queryset d req = Inl ValueError \<longleftrightarrow>
         (\<exists>e\<in>set (split_on CHR '','' (param_text (query_params req ''ingredient''))).
            py_int e = Inl ValueError)) \<and>
      ((\<exists>rs. RecipeViewSet_get_queryset d req = Inr rs) \<longleftrightarrow>
         (\<forall>e\<in>set (split_on CHR '','' (param_text (query_params req ''ingredient''))).
            \<exists>n. py_int e = Inr n))) \<and>
   (\<not> truthy (query_params req ''tag'') \<and> \<not> truthy (query_params req ''ingredient'') \<longrightarrow>
      RecipeViewSet_get_queryset d req =
        Inr (filter (\<lambda>r. recipe_user r = request_user req) (recipes d))) \<and>
   RecipeViewSet_get_queryset d req \<noteq> Inl (ValidationError fs) \<and>
   RecipeViewSet_get_queryset d req \<noteq> Inl IntegrityError \<and>
   (query_params req ''tag'' = Some [] \<longrightarrow>
      RecipeViewSet_get_queryset d req =
        RecipeViewSet_get_queryset d (req\<lparr>query_params := (query_params req)(''tag'' := None)\<rparr>)) \<and>
   (query_params req ''ingredient'' = Some [] \<longrightarrow>
      RecipeViewSet_get_queryset d req =
        RecipeViewSet_get_queryset d
          (req\<lparr>query_params := (query_params req)(''ingredient'' := None)\<rparr>))"
proof -
  have e: "RecipeViewSet_get_queryset d req = Inl x \<Longrightarrow> x = ValueError" for x
    by (auto simp: RecipeViewSet_get_queryset_def params_to_ints_def Let_def
             split: if_splits sum.splits dest: ints_of_error)
  have 1: "truthy (query_params req ''tag'') \<longrightarrow>
      (RecipeViewSet_get_queryset d req = Inl ValueError \<longleftrightarrow>
         (\<exists>e\<in>set (split_on CHR '','' (param_text (query_params req ''tag''))).
            py_int e = Inl ValueError)) \<and>
      ((\<exists>rs. RecipeViewSet_get_queryset d req = Inr rs) \<longleftrightarrow>
         (\<forall>e\<in>set (split_on CHR '','' (param_text (query_params req ''tag''))).
            \<exists>n. py_int e = Inr n))"
    by (simp add: get_queryset_tag_branch case_sum_Inl_iff case_sum_Inr_iff
          params_to_ints_def ints_of_Inl_iff ints_of_Inr_iff)
  have 2: "\<not> truthy (query_params req ''tag'') \<and> truthy (query_params req ''ingredient'') \<longrightarrow>
      (RecipeViewSet_get_queryset d req = Inl ValueError \<longleftrightarrow>
         (\<exists>e\<in>set (split_on CHR '','' (param_text (query_params req ''ingredient''))).
            py_int e = Inl ValueError)) \<and>
      ((\<exists>rs. RecipeViewSet_get_queryset d req = Inr rs) \<longleftrightarrow>
         (\<forall>e\<in>set (split_on CHR '','' (param_text (query_params req ''ingredient''))).
            \<exists>n. py_int e = Inr n))"
    by (simp add: get_queryset_ingredient_branch case_sum_Inl_iff case_sum_Inr_iff
          params_to_ints_def ints_of_Inl_iff ints_of_Inr_iff)
  have 3: "\<not> truthy (query_params req ''tag'') \<and> \<not> truthy (query_params req ''ingredient'') \<longrightarrow>
      RecipeViewSet_get_queryset d req =
        Inr (filter (\<lambda>r. recipe_user r = request_user req) (recipes d))"
    by (simp add: get_queryset_owner_branch)
  have 4: "RecipeViewSet_get_queryset d req \<noteq> Inl (ValidationError fs)"
    using e by blast
  have 5: "RecipeViewSet_get_queryset d req \<noteq> Inl IntegrityError"
    using e by blast
  have 6: "query_params req ''tag'' = Some [] \<longrightarrow>
      RecipeViewSet_get_queryset d req =
        RecipeViewSet_get_queryset d (req\<lparr>query_params := (query_params req)(''tag'' := None)\<rparr>)"
    by (simp add: RecipeViewSet_get_queryset_def truthy_def Let_def)
  have 7: "query_params req ''ingredient'' = Some [] \<longrightarrow>
      RecipeViewSet_get_queryset d req =
        RecipeViewSet_get_queryset d
          (req\<lparr>query_params := (query_params req)(''ingredient'' := None)\<rparr>)"
    by (simp add: RecipeViewSet_get_queryset_def truthy_def Let_def)
  show ?thesis by (intro conjI 1 2 3 4 5 6 7)
qed

text \<open>
  A tag parameter with the element \<open>x\<close> raises; an empty tag parameter hands over to
  the ingredient parameter, which parses; an empty tag parameter alone gives the
  recipes of the requesting user, as no tag parameter does.
\<close>

theorem recipe_list_parsing_partial_witness:
  "truthy (query_params (demo_request 1 [(''tag'', ''1,x'')]) ''tag'') \<and>
   split_on CHR '','' (param_text (query_params (demo_request 1 [(''tag'', ''1,x'')]) ''tag''))
     = [''1'', ''x''] \<and>
   py_int ''x'' = Inl ValueError \<and>
   RecipeViewSet_get_queryset demo_db (demo_request 1 [(''tag'', ''1,x'')]) = Inl ValueError \<and>
   \<not> truthy (query_params (demo_request 1 [(''tag'', []), (''ingredient'', ''2'')]) ''tag'') \<and>
   truthy (query_params (demo_request 1 [(''tag'', []), (''ingredient'', ''2'')]) ''ingredient'') \<and>
   split_on CHR '',''
     (param_text (query_params (demo_request 1 [(''tag'', []), (''ingredient'', ''2'')])
        ''ingredient'')) = [''2''] \<and>
   py_int ''2'' = Inr 2 \<and>
   (\<exists>rs. RecipeViewSet_get_queryset demo_db
           (demo_request 1 [(''tag'', []), (''ingredient'', ''2'')]) = Inr rs) \<and>
   query_params (demo_request 1 [(''tag'', [])]) ''tag'' = Some [] \<and>
   \<not> truthy (query_params (demo_request 1 [(''tag'', [])]) ''tag'') \<and>
   \<not> truthy (query_params (demo_request 1 [(''tag'', [])]) ''ingredient'') \<and>
   RecipeViewSet_get_queryset demo_db (demo_request 1 [(''tag'', [])]) =
     Inr (filter (\<lambda>r. recipe_user r = request_user (demo_request 1 [(''tag'', [])]))
            (recipes demo_db)) \<and>
   RecipeViewSet_get_queryset demo_db (demo_request 1 [(''tag'', [])]) =
     RecipeViewSet_get_queryset demo_db
       ((demo_request 1 [(''tag'', [])])
          \<lparr>query_params := (query_params (demo_request 1 [(''tag'', [])]))(''tag'' := None)\<rparr>) \<and>
   query_params (demo_request 1 [(''ingredient'', [])]) ''ingredient'' = Some [] \<and>
   RecipeViewSet_get_queryset demo_db (demo_request 1 [(''ingredient'', [])]) =
     RecipeViewSet_get_queryset demo_db
       ((demo_request 1 [(''ingredient'', [])])
          \<lparr>query_params :=
             (query_params (demo_request 1 [(''ingredient'', [])]))(''ingredient'' := None)\<rparr>)"
proof -
  let ?r1 = "demo_request 1 [(''tag'', ''1,x'')]"
  let ?r2 = "demo_request 1 [(''tag'', []), (''ingredient'', ''2'')]"
  let ?r3 = "demo_request 1 [(''tag'', [])]"
  let ?r4 = "demo_request 1 [(''ingredient'', [])]"
  have a1: "truthy (query_params ?r1 ''tag'')" by code_simp
  have a2: "split_on CHR '','' (param_text (query_params ?r1 ''tag'')) = [''1'', ''x'']"
    by code_simp
  have a3: "py_int ''x'' = Inl ValueError" by code_simp
  from a2 a3 have a4: "\<exists>e\<in>set (split_on CHR '','' (param_text (query_params ?r1 ''tag''))).
      py_int e = Inl ValueError"
    by simp
  from recipe_list_parsing_partial [of ?r1 demo_db] a1 a4
  have c1: "RecipeViewSet_get_queryset demo_db ?r1 = Inl ValueError"
    by blast
  have b1: "\<not> truthy (query_params ?r2 ''tag'')" by code_simp
  have b2: "truthy (query_params ?r2 ''ingredient'')" by code_simp
  have b3: "split_on CHR '','' (param_text (query_params ?r2 ''ingredient'')) = [''2'']"
    by code_simp
  have b4: "py_int ''2'' = Inr 2" by code_simp
  from b3 b4 have b5: "\<forall>e\<in>set (split_on CHR '','' (param_text (query_params ?r2 ''ingredient''))).
      \<exists>n. py_int e = Inr n"
    by simp
  from recipe_list_parsing_partial [of ?r2 demo_db] b1 b2 b5
  have c2: "\<exists>rs. RecipeViewSet_get_queryset demo_db ?r2 = Inr rs"
    by blast
  have d1: "query_params ?r3 ''tag'' = Some []" by code_simp
  have d2: "\<not> truthy (query_params ?r3 ''tag'')" by code_simp
  have d3: "\<not> truthy (query_params ?r3 ''ingredient'')" by code_simp
  from recipe_list_parsing_partial [of ?r3 demo_db] d2 d3
  have c3: "RecipeViewSet_get_queryset demo_db ?r3 =
      Inr (filter (\<lambda>r. recipe_user r = request_user ?r3) (recipes demo_db))"
    by blast
  from recipe_list_parsing_partial [of ?r3 demo_db] d1
  have c4: "RecipeViewSet_get_queryset demo_db ?r3 =
      RecipeViewSet_get_queryset demo_db
        (?r3\<lparr>query_params := (query_params ?r3)(''tag'' := None)\<rparr>)"
    by blast
  have e1: "query_params ?r4 ''ingredient'' = Some []" by code_simp
  from recipe_list_parsing_partial [of ?r4 demo_db] e1
  have c5: "RecipeViewSet_get_queryset demo_db ?r4 =
      RecipeViewSet_get_queryset demo_db
        (?r4\<lparr>query_params := (query_params ?r4)(''ingredient'' := None)\<rparr>)"
    by blast
  show ?thesis by (intro conjI a1 a2 a3 c1 b1 b2 b3 b4 c2 d1 d2 d3 c3 c4 e1 c5)
qed

text \<open>
  The claim as it was stated fails where the ill-formed parameter is not the one that is
  parsed: with \<open>tag=1\<close> the request returns a list although \<open>ingredient=x\<close> holds an
  element that is no integer. And an empty \<open>tag\<close> does not always fall back to the
  recipes of the requesting user: with \<open>ingredient=2\<close> user 1 gets the recipe of user 2.
\<close>

theorem recipe_list_parsing_counterexample:
  "query_params (demo_request 1 [(''tag'', ''1''), (''ingredient'', ''x'')]) ''ingredient'' = Some ''x'' \<and>
   ''x'' \<in> set (split_on CHR '','' ''x'') \<and>
   py_int ''x'' = Inl ValueError \<and>
   RecipeViewSet_get_queryset demo_db (demo_request 1 [(''tag'', ''1''), (''ingredient'', ''x'')])
     = Inr [demo_soup, demo_cake] \<and>
   query_params (demo_request 1 [(''tag'', []), (''ingredient'', ''2'')]) ''tag'' = Some '''' \<and>
   RecipeViewSet_get_queryset demo_db (demo_request 1 [(''tag'', []), (''ingredient'', ''2'')])
     = Inr [demo_cake] \<and>
   filter (\<lambda>r. recipe_user r = 1) (recipes demo_db) = [demo_soup]"
  by code_simp

section \<open>Creating users\<close>

text \<open>\<open>rsplit\<close> cuts at the last separator; \<open>strip\<close> adds no character.\<close>

lemma rsplit1_None_iff: "rsplit1 sep s = None \<longleftrightarrow> sep \<notin> set s"
  by (induction s) (auto split: option.splits)

lemma rsplit1_absent: "sep \<notin> set s \<Longrightarrow> rsplit1 sep s = None"
  by (simp add: rsplit1_None_iff)

lemma rsplit1_last: "sep \<notin> set b \<Longrightarrow> rsplit1 sep (a @ sep # b) = Some (a, b)"
  by (induction a) (simp_all add: rsplit1_absent)

lemma set_py_strip: "set (py_strip s) \<subseteq> set s"
proof -
  have "set (dropWhile P xs) \<subseteq> set xs" for P and xs :: string
    by (induction xs) auto
  then show ?thesis
    unfolding py_strip_def by (metis set_rev subset_trans)
qed

lemma normalize_email_split:
  "py_strip e = l @ CHR ''@'' # dm \<Longrightarrow> CHR ''@'' \<notin> set dm \<Longrightarrow>
   normalize_email e = l @ CHR ''@'' # py_lower dm"
  by (simp add: normalize_email_def rsplit1_last)

lemma normalize_email_no_at: "CHR ''@'' \<notin> set e \<Longrightarrow> normalize_email e = e"
proof -
  assume "CHR ''@'' \<notin> set e"
  then have "CHR ''@'' \<notin> set (py_strip e)" using set_py_strip by blast
  then have "rsplit1 CHR ''@'' (py_strip e) = None" by (simp add: rsplit1_None_iff)
  then show ?thesis by (simp add: normalize_email_def)
qed

text \<open>What \<open>create_user\<close> stores when it returns.\<close>

lemma create_user_Inr:
  "create_user mk d (Some e) pw nm = Inr (d', u) \<Longrightarrow>
   e \<noteq> [] \<and>
   u = \<lparr>user_id = next_id (map user_id (users d)), user_email = normalize_email e,
        user_name = or_keep nm [], user_password = mk pw,
        user_is_active = True, user_is_staff = False, user_is_superuser = False\<rparr> \<and>
   users d' = users d @ [u]"
  by (auto simp: create_user_def insert_user_def split: if_splits)

text \<open>
  What \<open>create_user\<close> stores as email when it accepts \<open>e\<close>: \<open>normalize_email e\<close>. If \<open>e\<close>
  without its surrounding white space is \<open>l@dm\<close>, with no further \<open>@\<close> in \<open>dm\<close>, that is
  \<open>l\<close> as given, the \<open>@\<close>, and \<open>dm\<close> in lower case; an \<open>e\<close> without \<open>@\<close> is stored
  unchanged.
\<close>

lemma create_user_stored_email:
  assumes "create_user mk d (Some e) pw nm = Inr (d', u)"
  shows "user_email u = normalize_email e \<and> u \<in> set (users d') \<and>
         (\<forall>l dm. py_strip e = l @ CHR ''@'' # dm \<and> CHR ''@'' \<notin> set dm
            \<longrightarrow> user_email u = l @ CHR ''@'' # py_lower dm) \<and>
         (CHR ''@'' \<notin> set e \<longrightarrow> user_email u = e)"
proof -
  from create_user_Inr [OF assms]
  have 1: "user_email u = normalize_email e" and 2: "users d' = users d @ [u]"
    by simp_all
  from 2 have 3: "u \<in> set (users d')" by simp
  show ?thesis
    using 1 3 by (auto simp: normalize_email_split normalize_email_no_at)
qed

text \<open>
  C7. The stored email should be the whole of \<open>e\<close> in lower case, local part and domain;
  the repository's test asks the same of the stored email
  (\<open>user.email == user.email.lower()\<close>). The code does not deliver it: a user created
  with \<open>Test@EXAMPLE.COM\<close> is stored with \<open>Test@example.com\<close>, which is neither \<open>e\<close> in
  lower case nor its own lower-case form, since the capital of the local part is kept.
\<close>

theorem create_user_mixed_case_email:
  "map_sum id (user_email \<circ> snd)
     (create_user demo_hasher demo_db (Some ''Test@EXAMPLE.COM'') (Some ''pass123'') None)
     = Inr ''Test@example.com'' \<and>
   py_lower ''Test@EXAMPLE.COM'' = ''test@example.com'' \<and>
   ''Test@example.com'' \<noteq> py_lower ''Test@EXAMPLE.COM'' \<and>
   ''Test@example.com'' \<noteq> py_lower ''Test@example.com''"
  by code_simp

text \<open>
  So two addresses that differ in the case of the local part make two users, where one
  lower-case form would make the second creation fail on the unique email.
\<close>

lemma demo_two_users_one_address:
  "map_sum id (map user_email \<circ> users \<circ> fst)
     (case create_user demo_hasher demo_db (Some ''A@b.com'') None None of
        Inl e \<Rightarrow> Inl e
      | Inr (d, u) \<Rightarrow> create_user demo_hasher d (Some ''a@b.com'') None None)
     = Inr [''A@b.com'', ''a@b.com'']"
  by code_simp

section \<open>What the user serializer shows and stores\<close>

lemma UserSerializer_data_eq:
  "UserSerializer_data u = [(''email'', user_email u), (''name'', user_name u)]"
  by (simp add: UserSerializer_data_def UserSerializer_fields_def
        UserSerializer_write_only_def user_attr_def)

text \<open>
  A profile update never writes a supplied password anywhere but through the hasher:
  the password field is the old one or the hasher's output.
\<close>

lemma UserSerializer_update_password:
  "UserSerializer_update mk d u email name password = (d', u') \<Longrightarrow>
   user_password u' = (if truthy password then mk password else user_password u) \<and>
   user_email u' = or_keep email (user_email u) \<and>
   user_name u' = or_keep name (user_name u) \<and>
   user_id u' = user_id u"
  by (auto simp: UserSerializer_update_def Let_def)

text \<open>
  C9. The representation of a user, which answers a registration and a profile read,
  has exactly the fields email and name: there is no password field in it. A
  registration that succeeds adds one user to the table, whose password field holds
  what the password hasher returned for the supplied password (\<open>make_password\<close>, a
  parameter here: that it cannot be inverted is a property of the hasher); the supplied
  password goes into no other field of the stored user.
\<close>

theorem user_password_never_exposed:
  "UserSerializer_data u = [(''email'', user_email u), (''name'', user_name u)] \<and>
   ''password'' \<notin> set (map fst (UserSerializer_data u)) \<and>
   (UserSerializer_create mk d email name password = Inr (d', u') \<longrightarrow>
      u' = \<lparr>user_id = next_id (map user_id (users d)), user_email = normalize_email email,
            user_name = name, user_password = mk (Some password),
            user_is_active = True, user_is_staff = False, user_is_superuser = False\<rparr> \<and>
      users d' = users d @ [u'] \<and>
      ''password'' \<notin> set (map fst (UserSerializer_data u')) \<and>
      (mk (Some password) \<noteq> password \<longrightarrow> user_password u' \<noteq> password))"
proof -
  have 1: "''password'' \<notin> set (map fst (UserSerializer_data v))" for v
    by (simp add: UserSerializer_data_eq)
  have 2: "UserSerializer_create mk d email name password = Inr (d', u') \<longrightarrow>
      u' = \<lparr>user_id = next_id (map user_id (users d)), user_email = normalize_email email,
            user_name = name, user_password = mk (Some password),
            user_is_active = True, user_is_staff = False, user_is_superuser = False\<rparr> \<and>
      users d' = users d @ [u']"
  proof
    assume "UserSerializer_create mk d email name password = Inr (d', u')"
    then have "create_user mk d (Some email) (Some password) (Some name) = Inr (d', u')"
      by (simp add: UserSerializer_create_def)
    from create_user_Inr [OF this]
    show "u' = \<lparr>user_id = next_id (map user_id (users d)), user_email = normalize_email email,
            user_name = name, user_password = mk (Some password),
            user_is_active = True, user_is_staff = False, user_is_superuser = False\<rparr> \<and>
      users d' = users d @ [u']"
      by (simp add: or_keep_def)
  qed
  show ?thesis
    using 1 2 by (auto simp: UserSerializer_data_eq)
qed

text \<open>A registration on the small database, with the stand-in hasher.\<close>

theorem user_password_never_exposed_witness:
  "UserSerializer_create demo_hasher demo_db ''a@A.com'' ''A'' ''pass123'' =
     Inr (demo_db\<lparr>users := [\<lparr>user_id = 1, user_email = ''a@a.com'', user_name = ''A'',
                               user_password = ''sha$321ssap'', user_is_active = True,
                               user_is_staff = False, user_is_superuser = False\<rparr>]\<rparr>,
          \<lparr>user_id = 1, user_email = ''a@a.com'', user_name = ''A'',
           user_password = ''sha$321ssap'', user_is_active = True,
           user_is_staff = False, user_is_superuser = False\<rparr>) \<and>
   \<lparr>user_id = 1, user_email = ''a@a.com'', user_name = ''A'',
    user_password = ''sha$321ssap'', user_is_active = True,
    user_is_staff = False, user_is_superuser = False\<rparr> =
   \<lparr>user_id = next_id (map user_id (users demo_db)), user_email = normalize_email ''a@A.com'',
    user_name = ''A'', user_password = demo_hasher (Some ''pass123''),
    user_is_active = True, user_is_staff = False, user_is_superuser = False\<rparr> \<and>
   ''password'' \<notin> set (map fst (UserSerializer_data
      \<lparr>user_id = 1, user_email = ''a@a.com'', user_name = ''A'',
       user_password = ''sha$321ssap'', user_is_active = True,
       user_is_staff = False, user_is_superuser = False\<rparr>)) \<and>
   UserSerializer_data
      \<lparr>user_id = 1, user_email = ''a@a.com'', user_name = ''A'',
       user_password = ''sha$321ssap'', user_is_active = True,
       user_is_staff = False, user_is_superuser = False\<rparr> =
     [(''email'', ''a@a.com''), (''name'', ''A'')] \<and>
   demo_hasher (Some ''pass123'') \<noteq> ''pass123'' \<and>
   user_password
      \<lparr>user_id = 1, user_email = ''a@a.com'', user_name = ''A'',
       user_password = ''sha$321ssap'', user_is_active = True,
       user_is_staff = False, user_is_superuser = False\<rparr> \<noteq> ''pass123''"
proof -
  let ?u = "\<lparr>user_id = 1, user_email = ''a@a.com'', user_name = ''A'',
             user_password = ''sha$321ssap'', user_is_active = True,
             user_is_staff = False, user_is_superuser = False\<rparr>"
  have a: "UserSerializer_create demo_hasher demo_db ''a@A.com'' ''A'' ''pass123'' =
             Inr (demo_db\<lparr>users := [?u]\<rparr>, ?u)"
    by code_simp
  note t = user_password_never_exposed [of ?u demo_hasher demo_db "''a@A.com''" "''A''"
      "''pass123''" "demo_db\<lparr>users := [?u]\<rparr>" ?u]
  from t a have c1: "?u =
      \<lparr>user_id = next_id (map user_id (users demo_db)), user_email = normalize_email ''a@A.com'',
       user_name = ''A'', user_password = demo_hasher (Some ''pass123''),
       user_is_active = True, user_is_staff = False, user_is_superuser = False\<rparr>"
    by blast
  from t a have c2: "''password'' \<notin> set (map fst (UserSerializer_data ?u))"
    by blast
  from t have c3: "UserSerializer_data ?u = [(''email'', ''a@a.com''), (''name'', ''A'')]"
    by simp
  have h: "demo_hasher (Some ''pass123'') \<noteq> ''pass123''"
    by (simp add: demo_hasher_def)
  from t a h have c4: "user_password ?u \<noteq> ''pass123''"
    by blast
  show ?thesis by (intro conjI a c1 c2 c3 h c4)
qed

section \<open>Validating and saving a recipe\<close>

text \<open>The many-to-many \<open>set\<close> leaves exactly the new keys.\<close>

lemma set_m2m_set: "set (m2m_set old new) = set new"
  by (auto simp: m2m_set_def)

lemma distinct_m2m_set: "distinct old \<Longrightarrow> distinct (m2m_set old new)"
  by (auto simp: m2m_set_def)

lemma m2m_set_single: "distinct old \<Longrightarrow> m2m_set old [k] = [k]"
  by (induction old) (auto simp: m2m_set_def)

text \<open>The fields one by one, and where their names enter the error list.\<close>

lemma related_field_Some_invalid:
  "is_invalid (related_field pks partial form (Some ks)) \<longleftrightarrow> (\<exists>k\<in>set ks. k \<notin> set pks)"
  by (auto simp: related_field_def is_invalid_def list_all_iff)

lemma related_field_Some_value:
  "\<not> is_invalid (related_field pks partial form (Some ks)) \<Longrightarrow>
   to_option (related_field pks partial form (Some ks)) = Some ks"
  by (auto simp: related_field_def is_invalid_def to_option_def split: if_splits)

lemma related_field_None_partial:
  "to_option (related_field pks True form None) = None"
  by (simp add: related_field_def to_option_def)

lemma char_field_Some_value:
  "\<not> is_invalid (char_field n req blank partial (Some s)) \<Longrightarrow>
   to_option (char_field n req blank partial (Some s)) = Some (py_strip s)"
  by (auto simp: char_field_def is_invalid_def to_option_def split: if_splits)

lemma range_field_Some_value:
  "\<not> is_invalid (range_field lo hi partial (Some n)) \<Longrightarrow>
   to_option (range_field lo hi partial (Some n)) = Some n"
  by (auto simp: range_field_def is_invalid_def to_option_def split: if_splits)

lemma range_field_full_value:
  assumes "\<not> is_invalid (range_field lo hi False v)"
  shows "\<exists>n. to_option (range_field lo hi False v) = Some n"
proof (cases v)
  case None
  with assms show ?thesis by (simp add: range_field_def is_invalid_def)
next
  case (Some n)
  with assms show ?thesis
    by (cases "lo \<le> n \<and> n \<le> hi") (simp_all add: range_field_def is_invalid_def to_option_def)
qed

lemma tag_in_errors:
  "''tag'' \<in> set (RecipeSerializer_errors d partial x) \<longleftrightarrow>
   is_invalid (related_field (map tag_id (tags d)) partial (is_form x) (data_tag x))"
  by (simp add: RecipeSerializer_errors_def)

lemma ingredient_in_errors:
  "''ingredient'' \<in> set (RecipeSerializer_errors d partial x) \<longleftrightarrow>
   is_invalid (related_field (map ingredient_id (ingredients d)) partial (is_form x)
     (data_ingredient x))"
  by (simp add: RecipeSerializer_errors_def)

lemma errors_Nil_iff:
  "RecipeSerializer_errors d partial x = [] \<longleftrightarrow>
   \<not> is_invalid (char_field 255 True False partial (data_title x)) \<and>
   \<not> is_invalid (related_field (map ingredient_id (ingredients d)) partial (is_form x)
        (data_ingredient x)) \<and>
   \<not> is_invalid (related_field (map tag_id (tags d)) partial (is_form x) (data_tag x)) \<and>
   \<not> is_invalid (range_field 0 2147483647 partial (data_time x)) \<and>
   \<not> is_invalid (range_field (- 99999) 99999 partial (data_price x)) \<and>
   \<not> is_invalid (char_field 255 False True partial (data_link x))"
  by (simp add: RecipeSerializer_errors_def)

text \<open>When validation, update and create return, and what.\<close>

lemma is_valid_Inr_iff:
  "RecipeSerializer_is_valid d partial x = Inr v \<longleftrightarrow>
   RecipeSerializer_errors d partial x = [] \<and>
   v = \<lparr>v_title = to_option (char_field 255 True False partial (data_title x)),
        v_ingredient = to_option (related_field (map ingredient_id (ingredients d)) partial
                                    (is_form x) (data_ingredient x)),
        v_tag = to_option (related_field (map tag_id (tags d)) partial (is_form x) (data_tag x)),
        v_time = to_option (range_field 0 2147483647 partial (data_time x)),
        v_price = to_option (range_field (- 99999) 99999 partial (data_price x)),
        v_link = to_option (char_field 255 False True partial (data_link x))\<rparr>"
  by (auto simp: RecipeSerializer_is_valid_def)

lemma update_Inr_iff:
  "RecipeSerializer_update d R partial x = Inr (d', R') \<longleftrightarrow>
   (\<exists>v. RecipeSerializer_is_valid d partial x = Inr v \<and>
        R' = ModelSerializer_update R v \<and> d' = save_recipe d R')"
  by (auto simp: RecipeSerializer_update_def split: sum.splits)

lemma update_Inl_iff:
  "RecipeSerializer_update d R partial x = Inl e \<longleftrightarrow>
   RecipeSerializer_errors d partial x \<noteq> [] \<and>
   e = ValidationError (RecipeSerializer_errors d partial x)"
  by (auto simp: RecipeSerializer_update_def RecipeSerializer_is_valid_def split: sum.splits)

lemma create_Inl_iff:
  "RecipeSerializer_errors d False x \<noteq> [] \<Longrightarrow>
   RecipeViewSet_create d req x = Inl (ValidationError (RecipeSerializer_errors d False x))"
  by (simp add: RecipeViewSet_create_def RecipeSerializer_is_valid_def)

lemma create_Inr:
  assumes "RecipeSerializer_errors d False x = []"
  shows "\<exists>d' R'. RecipeViewSet_create d req x = Inr (d', R') \<and>
           recipe_user R' = request_user req \<and>
           recipe_tag R' = m2m_set [] (or_keep (to_option (related_field (map tag_id (tags d))
                              False (is_form x) (data_tag x))) []) \<and>
           recipe_ingredient R' = m2m_set [] (or_keep (to_option (related_field
                              (map ingredient_id (ingredients d)) False (is_form x)
                              (data_ingredient x))) []) \<and>
           recipes d' = recipes d @ [R']"
proof -
  from assms have ok: "\<not> is_invalid (range_field 0 2147483647 False (data_time x))"
      "\<not> is_invalid (range_field (- 99999) 99999 False (data_price x))"
    by (simp_all add: errors_Nil_iff)
  from range_field_full_value [OF ok(1)] obtain t
    where t: "to_option (range_field 0 2147483647 False (data_time x)) = Some t" ..
  from range_field_full_value [OF ok(2)] obtain p
    where p: "to_option (range_field (- 99999) 99999 False (data_price x)) = Some p" ..
  show ?thesis
    using assms t p
    by (simp add: RecipeViewSet_create_def RecipeSerializer_is_valid_def
          ModelSerializer_create_def Let_def)
qed

lemma save_recipe_rows:
  "recipes (save_recipe d r) = map (\<lambda>r'. if recipe_id r' = recipe_id r then r else r') (recipes d)"
  by (simp add: save_recipe_def)

lemma ModelSerializer_update_frame:
  "recipe_id (ModelSerializer_update R v) = recipe_id R"
  "recipe_user (ModelSerializer_update R v) = recipe_user R"
  "recipe_image (ModelSerializer_update R v) = recipe_image R"
  by (simp_all add: ModelSerializer_update_def)

lemma subset_singleton_absent: "A \<subseteq> {a} \<Longrightarrow> a \<notin> A \<Longrightarrow> A = {}"
  by blast

lemma no_error_when_resolved:
  assumes t: "\<forall>ks. data_tag x = Some ks \<longrightarrow> (\<forall>k\<in>set ks. k \<in> set (map tag_id (tags d)))"
    and i: "\<forall>ks. data_ingredient x = Some ks \<longrightarrow>
              (\<forall>k\<in>set ks. k \<in> set (map ingredient_id (ingredients d)))"
    and pre: "\<forall>f\<in>set (RecipeSerializer_errors d partial x).
              (f = ''tag'' \<and> data_tag x \<noteq> None) \<or> (f = ''ingredient'' \<and> data_ingredient x \<noteq> None)"
  shows "RecipeSerializer_errors d partial x = []"
proof -
  have "f \<notin> set (RecipeSerializer_errors d partial x)" for f
  proof
    assume f: "f \<in> set (RecipeSerializer_errors d partial x)"
    from pre [rule_format, OF f] show False
    proof (elim disjE conjE)
      assume ft: "f = ''tag''" and "data_tag x \<noteq> None"
      then obtain ks where ks: "data_tag x = Some ks" by (cases "data_tag x") simp_all
      from f have "\<exists>k\<in>set ks. k \<notin> set (map tag_id (tags d))"
        unfolding ft tag_in_errors ks related_field_Some_invalid .
      moreover from t ks have "\<forall>k\<in>set ks. k \<in> set (map tag_id (tags d))" by simp
      ultimately show False by simp
    next
      assume fi: "f = ''ingredient''" and "data_ingredient x \<noteq> None"
      then obtain ks where ks: "data_ingredient x = Some ks"
        by (cases "data_ingredient x") simp_all
      from f have "\<exists>k\<in>set ks. k \<notin> set (map ingredient_id (ingredients d))"
        unfolding fi ingredient_in_errors ks related_field_Some_invalid .
      moreover from i ks have "\<forall>k\<in>set ks. k \<in> set (map ingredient_id (ingredients d))"
        by simp
      ultimately show False by simp
    qed
  qed
  then show ?thesis by (metis list.set_intros(1) neq_Nil_conv)
qed

lemma error_when_unresolved:
  assumes "(\<exists>ks. data_tag x = Some ks \<and> (\<exists>k\<in>set ks. k \<notin> set (map tag_id (tags d)))) \<or>
    (\<exists>ks. data_ingredient x = Some ks \<and>
       (\<exists>k\<in>set ks. k \<notin> set (map ingredient_id (ingredients d))))"
  shows "RecipeSerializer_errors d partial x \<noteq> []"
proof -
  from assms show ?thesis
  proof
    assume "\<exists>ks. data_tag x = Some ks \<and> (\<exists>k\<in>set ks. k \<notin> set (map tag_id (tags d)))"
    then obtain ks where "data_tag x = Some ks" "\<exists>k\<in>set ks. k \<notin> set (map tag_id (tags d))"
      by blast
    then have "''tag'' \<in> set (RecipeSerializer_errors d partial x)"
      by (simp only: tag_in_errors related_field_Some_invalid)
    then show ?thesis by auto
  next
    assume "\<exists>ks. data_ingredient x = Some ks \<and>
       (\<exists>k\<in>set ks. k \<notin> set (map ingredient_id (ingredients d)))"
    then obtain ks where "data_ingredient x = Some ks"
      "\<exists>k\<in>set ks. k \<notin> set (map ingredient_id (ingredients d))"
      by blast
    then have "''ingredient'' \<in> set (RecipeSerializer_errors d partial x)"
      by (simp only: ingredient_in_errors related_field_Some_invalid)
    then show ?thesis by auto
  qed
qed

lemmas demo_defs = demo_db_def demo_tags_def demo_ingredients_def demo_soup_def demo_cake_def
  demo_request_def

lemmas serializer_defs = RecipeSerializer_update_def RecipeSerializer_is_valid_def
  RecipeSerializer_errors_def RecipeViewSet_create_def ModelSerializer_create_def
  ModelSerializer_update_def save_recipe_def char_field_def range_field_def related_field_def
  is_invalid_def to_option_def or_keep_def m2m_set_def py_strip_def py_isspace_def next_id_def
  Let_def

section \<open>Full and partial update of a recipe\<close>

text \<open>
  C4. If a full update (PUT, \<open>partial = False\<close>) of a recipe \<open>R\<close> with a payload whose
  tag field lists the single id \<open>k\<close> succeeds, then \<open>k\<close> is the id of an existing tag and
  the tag set of the updated recipe is exactly \<open>{k}\<close>, however many tags \<open>R\<close> had (with
  links stored once each, the tag list is \<open>[k]\<close>); the updated recipe replaces \<open>R\<close> in
  the table. The update does succeed whenever \<open>k\<close> exists and no field other than the
  tag field is in error.
\<close>

theorem full_update_replaces_tags:
  "(RecipeSerializer_update d R False x = Inr (d', R') \<and> data_tag x = Some [k] \<longrightarrow>
      k \<in> set (map tag_id (tags d)) \<and>
      set (recipe_tag R') = {k} \<and>
      (distinct (recipe_tag R) \<longrightarrow> recipe_tag R' = [k]) \<and>
      recipe_id R' = recipe_id R \<and>
      recipes d' = map (\<lambda>r. if recipe_id r = recipe_id R then R' else r) (recipes d)) \<and>
   (data_tag x = Some [k] \<and> k \<in> set (map tag_id (tags d)) \<and>
    set (RecipeSerializer_errors d False x) \<subseteq> {''tag''} \<longrightarrow>
      (\<exists>d' R'. RecipeSerializer_update d R False x = Inr (d', R')))"
proof (intro conjI impI)
  assume a: "RecipeSerializer_update d R False x = Inr (d', R') \<and> data_tag x = Some [k]"
  then obtain v where v: "RecipeSerializer_is_valid d False x = Inr v"
    and R': "R' = ModelSerializer_update R v" and d': "d' = save_recipe d R'"
    by (auto simp: update_Inr_iff)
  from v have ok: "RecipeSerializer_errors d False x = []"
    and vt: "v_tag v = to_option (related_field (map tag_id (tags d)) False (is_form x) (data_tag x))"
    by (simp_all add: is_valid_Inr_iff)
  from ok have "''tag'' \<notin> set (RecipeSerializer_errors d False x)" by simp
  with a have ni: "\<not> is_invalid (related_field (map tag_id (tags d)) False (is_form x) (Some [k]))"
    by (simp add: tag_in_errors)
  then show "k \<in> set (map tag_id (tags d))"
    by (simp add: related_field_Some_invalid)
  from ni vt a have "v_tag v = Some [k]"
    by (simp add: related_field_Some_value)
  then have t: "recipe_tag R' = m2m_set (recipe_tag R) [k]"
    by (simp add: R' ModelSerializer_update_def)
  then show "set (recipe_tag R') = {k}" by (simp add: set_m2m_set)
  from t show "distinct (recipe_tag R) \<Longrightarrow> recipe_tag R' = [k]"
    by (simp add: m2m_set_single)
  show "recipe_id R' = recipe_id R" by (simp add: R' ModelSerializer_update_frame)
  then show "recipes d' = map (\<lambda>r. if recipe_id r = recipe_id R then R' else r) (recipes d)"
    by (simp add: d' save_recipe_rows)
next
  assume a: "data_tag x = Some [k] \<and> k \<in> set (map tag_id (tags d)) \<and>
    set (RecipeSerializer_errors d False x) \<subseteq> {''tag''}"
  then have "\<not> is_invalid (related_field (map tag_id (tags d)) False (is_form x) (data_tag x))"
    by (simp add: related_field_Some_invalid)
  then have "''tag'' \<notin> set (RecipeSerializer_errors d False x)"
    by (simp add: tag_in_errors)
  moreover from a have "set (RecipeSerializer_errors d False x) \<subseteq> {''tag''}" by simp
  ultimately have "set (RecipeSerializer_errors d False x) = {}"
    by (rule subset_singleton_absent [rotated])
  then have "RecipeSerializer_errors d False x = []" by simp
  then show "\<exists>d' R'. RecipeSerializer_update d R False x = Inr (d', R')"
    by (simp add: update_Inr_iff is_valid_Inr_iff)
qed

text \<open>
  The recipe of user 2 has tags 1, 2 and 4; a PUT with the tag list \<open>[3]\<close> leaves it with
  tag 3 alone.
\<close>

theorem full_update_replaces_tags_witness:
  "RecipeSerializer_update demo_db demo_cake False demo_put =
     Inr (demo_db\<lparr>recipes := [demo_soup, demo_torte]\<rparr>, demo_torte) \<and>
   data_tag demo_put = Some [3] \<and>
   recipe_tag demo_cake = [1, 2, 4] \<and>
   distinct (recipe_tag demo_cake) \<and>
   3 \<in> set (map tag_id (tags demo_db)) \<and>
   set (recipe_tag demo_torte) = {3} \<and>
   recipe_tag demo_torte = [3] \<and>
   recipes (demo_db\<lparr>recipes := [demo_soup, demo_torte]\<rparr>) =
     map (\<lambda>r. if recipe_id r = recipe_id demo_cake then demo_torte else r) (recipes demo_db) \<and>
   set (RecipeSerializer_errors demo_db False demo_put) \<subseteq> {''tag''} \<and>
   (\<exists>d' R'. RecipeSerializer_update demo_db demo_soup False demo_put = Inr (d', R'))"
proof -
  have a: "RecipeSerializer_update demo_db demo_cake False demo_put =
      Inr (demo_db\<lparr>recipes := [demo_soup, demo_torte]\<rparr>, demo_torte)"
    by (simp add: demo_defs demo_put_def demo_torte_def serializer_defs)
  have b: "data_tag demo_put = Some [3]" by (simp add: demo_put_def)
  have c: "recipe_tag demo_cake = [1, 2, 4]" by (simp add: demo_cake_def)
  have e: "distinct (recipe_tag demo_cake)" by (simp add: demo_cake_def)
  note t = full_update_replaces_tags [of demo_db demo_cake demo_put
      "demo_db\<lparr>recipes := [demo_soup, demo_torte]\<rparr>" demo_torte 3, THEN conjunct1, rule_format,
      OF conjI [OF a b]]
  from t have c1: "3 \<in> set (map tag_id (tags demo_db))" by (rule conjunct1)
  from t have c2: "set (recipe_tag demo_torte) = {3}" by simp
  from t e have c3: "recipe_tag demo_torte = [3]" by simp
  from t have c4: "recipes (demo_db\<lparr>recipes := [demo_soup, demo_torte]\<rparr>) =
      map (\<lambda>r. if recipe_id r = recipe_id demo_cake then demo_torte else r) (recipes demo_db)"
    by simp
  have f: "set (RecipeSerializer_errors demo_db False demo_put) \<subseteq> {''tag''}"
    by (simp add: demo_defs demo_put_def demo_torte_def serializer_defs)
  from full_update_replaces_tags [of demo_db demo_soup demo_put _ _ 3, THEN conjunct2, rule_format,
      OF conjI [OF b conjI [OF c1 f]]]
  have c5: "\<exists>d' R'. RecipeSerializer_update demo_db demo_soup False demo_put = Inr (d', R')" .
  show ?thesis by (intro conjI a b c e c1 c2 c3 c4 f c5)
qed

text \<open>
  C5. If a partial update (PATCH, \<open>partial = True\<close>) of a recipe \<open>R\<close> with a payload
  without the ingredient field succeeds, the ingredient list of the updated recipe is
  that of \<open>R\<close>, every field the payload names has the value given (strings without
  surrounding white space, the tags as a set), every field it does not name is as in
  \<open>R\<close>, and the updated recipe replaces \<open>R\<close> in the table. The update succeeds
  whenever no field is in error.
\<close>

theorem partial_update_keeps_ingredients:
  "(RecipeSerializer_update d R True x = Inr (d', R') \<and> data_ingredient x = None \<longrightarrow>
      recipe_ingredient R' = recipe_ingredient R \<and>
      recipe_title R' = (case data_title x of None \<Rightarrow> recipe_title R | Some t \<Rightarrow> py_strip t) \<and>
      recipe_time R' = (case data_time x of None \<Rightarrow> recipe_time R | Some n \<Rightarrow> n) \<and>
      recipe_price R' = (case data_price x of None \<Rightarrow> recipe_price R | Some p \<Rightarrow> p) \<and>
      recipe_link R' = (case data_link x of None \<Rightarrow> recipe_link R | Some l \<Rightarrow> py_strip l) \<and>
      set (recipe_tag R') = (case data_tag x of None \<Rightarrow> set (recipe_tag R) | Some ks \<Rightarrow> set ks) \<and>
      recipe_id R' = recipe_id R \<and> recipe_user R' = recipe_user R \<and>
      recipes d' = map (\<lambda>r. if recipe_id r = recipe_id R then R' else r) (recipes d)) \<and>
   (data_ingredient x = None \<and> RecipeSerializer_errors d True x = [] \<longrightarrow>
      (\<exists>d' R'. RecipeSerializer_update d R True x = Inr (d', R')))"
proof (intro conjI impI)
  assume a: "RecipeSerializer_update d R True x = Inr (d', R') \<and> data_ingredient x = None"
  then obtain v where v: "RecipeSerializer_is_valid d True x = Inr v"
    and R': "R' = ModelSerializer_update R v" and d': "d' = save_recipe d R'"
    by (auto simp: update_Inr_iff)
  from v have ok: "RecipeSerializer_errors d True x = []" by (simp add: is_valid_Inr_iff)
  note ok' = ok [unfolded errors_Nil_iff]
  from v a have "v_ingredient v = None"
    by (simp add: is_valid_Inr_iff related_field_None_partial)
  then show "recipe_ingredient R' = recipe_ingredient R"
    by (simp add: R' ModelSerializer_update_def)
  from v ok' show "recipe_title R' = (case data_title x of None \<Rightarrow> recipe_title R | Some t \<Rightarrow> py_strip t)"
    by (cases "data_title x")
       (simp_all add: R' ModelSerializer_update_def is_valid_Inr_iff char_field_Some_value
          or_keep_def, simp add: char_field_def to_option_def)
  from v ok' show "recipe_time R' = (case data_time x of None \<Rightarrow> recipe_time R | Some n \<Rightarrow> n)"
    by (cases "data_time x")
       (simp_all add: R' ModelSerializer_update_def is_valid_Inr_iff range_field_Some_value
          or_keep_def, simp add: range_field_def to_option_def)
  from v ok' show "recipe_price R' = (case data_price x of None \<Rightarrow> recipe_price R | Some p \<Rightarrow> p)"
    by (cases "data_price x")
       (simp_all add: R' ModelSerializer_update_def is_valid_Inr_iff range_field_Some_value
          or_keep_def, simp add: range_field_def to_option_def)
  from v ok' show "recipe_link R' = (case data_link x of None \<Rightarrow> recipe_link R | Some l \<Rightarrow> py_strip l)"
    by (cases "data_link x")
       (simp_all add: R' ModelSerializer_update_def is_valid_Inr_iff char_field_Some_value
          or_keep_def, simp add: char_field_def to_option_def)
  from v ok' show "set (recipe_tag R') = (case data_tag x of None \<Rightarrow> set (recipe_tag R) | Some ks \<Rightarrow> set ks)"
    by (cases "data_tag x")
       (simp_all add: R' ModelSerializer_update_def is_valid_Inr_iff related_field_Some_value
          related_field_None_partial set_m2m_set)
  show i: "recipe_id R' = recipe_id R" by (simp add: R' ModelSerializer_update_frame)
  show "recipe_user R' = recipe_user R" by (simp add: R' ModelSerializer_update_frame)
  from i show "recipes d' = map (\<lambda>r. if recipe_id r = recipe_id R then R' else r) (recipes d)"
    by (simp add: d' save_recipe_rows)
next
  assume "data_ingredient x = None \<and> RecipeSerializer_errors d True x = []"
  then show "\<exists>d' R'. RecipeSerializer_update d R True x = Inr (d', R')"
    by (simp add: update_Inr_iff is_valid_Inr_iff)
qed

text \<open>A PATCH that names only the title: the soup becomes a stew with the same ingredient.\<close>

theorem partial_update_keeps_ingredients_witness:
  "RecipeSerializer_update demo_db demo_soup True demo_patch =
     Inr (demo_db\<lparr>recipes := [demo_stew, demo_cake]\<rparr>, demo_stew) \<and>
   data_ingredient demo_patch = None \<and>
   data_title demo_patch = Some ''stew'' \<and>
   recipe_ingredient demo_stew = recipe_ingredient demo_soup \<and>
   recipe_ingredient demo_soup = [1] \<and>
   recipe_title demo_stew = py_strip ''stew'' \<and>
   recipe_title demo_soup = ''soup'' \<and>
   RecipeSerializer_errors demo_db True demo_patch = [] \<and>
   (\<exists>d' R'. RecipeSerializer_update demo_db demo_cake True demo_patch = Inr (d', R'))"
proof -
  have a: "RecipeSerializer_update demo_db demo_soup True demo_patch =
      Inr (demo_db\<lparr>recipes := [demo_stew, demo_cake]\<rparr>, demo_stew)"
    by (simp add: demo_defs demo_patch_def demo_stew_def serializer_defs)
  have b: "data_ingredient demo_patch = None" by (simp add: demo_patch_def)
  have c: "data_title demo_patch = Some ''stew''" by (simp add: demo_patch_def)
  note t = partial_update_keeps_ingredients [of demo_db demo_soup demo_patch
      "demo_db\<lparr>recipes := [demo_stew, demo_cake]\<rparr>" demo_stew, THEN conjunct1, rule_format,
      OF conjI [OF a b]]
  from t have c1: "recipe_ingredient demo_stew = recipe_ingredient demo_soup"
    by (rule conjunct1)
  from t c have c2: "recipe_title demo_stew = py_strip ''stew''" by simp
  have e: "recipe_ingredient demo_soup = [1]" by (simp add: demo_soup_def)
  have f: "recipe_title demo_soup = ''soup''" by (simp add: demo_soup_def)
  have g: "RecipeSerializer_errors demo_db True demo_patch = []"
    by (simp add: demo_defs demo_patch_def demo_stew_def serializer_defs)
  from partial_update_keeps_ingredients [of demo_db demo_cake demo_patch, THEN conjunct2,
      rule_format, OF conjI [OF b g]]
  have c3: "\<exists>d' R'. RecipeSerializer_update demo_db demo_cake True demo_patch = Inr (d', R')" .
  show ?thesis by (intro conjI a b c c1 e c2 f g c3)
qed

section \<open>Resolving the listed ids\<close>

text \<open>
  C8, amended. For a recipe create or update whose payload lists tag ids or ingredient
  ids: if a listed id is not the id of an existing tag or ingredient, the request fails
  with a \<open>ValidationError\<close>. If every listed id is one, and no field but a listed id
  field is in error, the request succeeds and the recipe's tag and ingredient sets are
  exactly the listed ids. The ids are looked up in the whole tables, so the owner of a
  tag or ingredient plays no part and a recipe may link to those of another user.
\<close>

theorem related_ids_validation:
  "((\<exists>ks. data_tag x = Some ks \<and> (\<exists>k\<in>set ks. k \<notin> set (map tag_id (tags d)))) \<or>
    (\<exists>ks. data_ingredient x = Some ks \<and>
       (\<exists>k\<in>set ks. k \<notin> set (map ingredient_id (ingredients d)))) \<longrightarrow>
      (\<exists>fs. RecipeSerializer_update d R partial x = Inl (ValidationError fs)) \<and>
      (\<exists>fs. RecipeViewSet_create d req x = Inl (ValidationError fs))) \<and>
   ((\<forall>ks. data_tag x = Some ks \<longrightarrow> (\<forall>k\<in>set ks. k \<in> set (map tag_id (tags d)))) \<and>
    (\<forall>ks. data_ingredient x = Some ks \<longrightarrow>
       (\<forall>k\<in>set ks. k \<in> set (map ingredient_id (ingredients d)))) \<and>
    (\<forall>f\<in>set (RecipeSerializer_errors d partial x).
       (f = ''tag'' \<and> data_tag x \<noteq> None) \<or> (f = ''ingredient'' \<and> data_ingredient x \<noteq> None)) \<longrightarrow>
      (\<exists>d' R'. RecipeSerializer_update d R partial x = Inr (d', R') \<and>
         (\<forall>ks. data_tag x = Some ks \<longrightarrow> set (recipe_tag R') = set ks) \<and>
         (\<forall>ks. data_ingredient x = Some ks \<longrightarrow> set (recipe_ingredient R') = set ks))) \<and>
   ((\<forall>ks. data_tag x = Some ks \<longrightarrow> (\<forall>k\<in>set ks. k \<in> set (map tag_id (tags d)))) \<and>
    (\<forall>ks. data_ingredient x = Some ks \<longrightarrow>
       (\<forall>k\<in>set ks. k \<in> set (map ingredient_id (ingredients d)))) \<and>
    (\<forall>f\<in>set (RecipeSerializer_errors d False x).
       (f = ''tag'' \<and> data_tag x \<noteq> None) \<or> (f = ''ingredient'' \<and> data_ingredient x \<noteq> None)) \<longrightarrow>
      (\<exists>d' R'. RecipeViewSet_create d req x = Inr (d', R') \<and>
         recipe_user R' = request_user req \<and>
         (\<forall>ks. data_tag x = Some ks \<longrightarrow> set (recipe_tag R') = set ks) \<and>
         (\<forall>ks. data_ingredient x = Some ks \<longrightarrow> set (recipe_ingredient R') = set ks)))"
proof (intro conjI impI)
  assume u: "(\<exists>ks. data_tag x = Some ks \<and> (\<exists>k\<in>set ks. k \<notin> set (map tag_id (tags d)))) \<or>
    (\<exists>ks. data_ingredient x = Some ks \<and>
       (\<exists>k\<in>set ks. k \<notin> set (map ingredient_id (ingredients d))))"
  from error_when_unresolved [OF u, of partial]
  show "\<exists>fs. RecipeSerializer_update d R partial x = Inl (ValidationError fs)"
    by (simp add: update_Inl_iff)
  from error_when_unresolved [OF u, of False]
  show "\<exists>fs. RecipeViewSet_create d req x = Inl (ValidationError fs)"
    by (simp add: create_Inl_iff)
next
  assume a: "(\<forall>ks. data_tag x = Some ks \<longrightarrow> (\<forall>k\<in>set ks. k \<in> set (map tag_id (tags d)))) \<and>
    (\<forall>ks. data_ingredient x = Some ks \<longrightarrow>
       (\<forall>k\<in>set ks. k \<in> set (map ingredient_id (ingredients d)))) \<and>
    (\<forall>f\<in>set (RecipeSerializer_errors d partial x).
       (f = ''tag'' \<and> data_tag x \<noteq> None) \<or> (f = ''ingredient'' \<and> data_ingredient x \<noteq> None))"
  then have ok: "RecipeSerializer_errors d partial x = []"
    by (intro no_error_when_resolved) blast+
  note ok' = ok [unfolded errors_Nil_iff]
  let ?v = "\<lparr>v_title = to_option (char_field 255 True False partial (data_title x)),
        v_ingredient = to_option (related_field (map ingredient_id (ingredients d)) partial
                                    (is_form x) (data_ingredient x)),
        v_tag = to_option (related_field (map tag_id (tags d)) partial (is_form x) (data_tag x)),
        v_time = to_option (range_field 0 2147483647 partial (data_time x)),
        v_price = to_option (range_field (- 99999) 99999 partial (data_price x)),
        v_link = to_option (char_field 255 False True partial (data_link x))\<rparr>"
  let ?R = "ModelSerializer_update R ?v"
  have 1: "RecipeSerializer_update d R partial x = Inr (save_recipe d ?R, ?R)"
    using ok by (simp add: update_Inr_iff is_valid_Inr_iff)
  have 2: "\<forall>ks. data_tag x = Some ks \<longrightarrow> set (recipe_tag ?R) = set ks"
    using ok' by (auto simp: ModelSerializer_update_def related_field_Some_value set_m2m_set)
  have 3: "\<forall>ks. data_ingredient x = Some ks \<longrightarrow> set (recipe_ingredient ?R) = set ks"
    using ok' by (auto simp: ModelSerializer_update_def related_field_Some_value set_m2m_set)
  show "\<exists>d' R'. RecipeSerializer_update d R partial x = Inr (d', R') \<and>
         (\<forall>ks. data_tag x = Some ks \<longrightarrow> set (recipe_tag R') = set ks) \<and>
         (\<forall>ks. data_ingredient x = Some ks \<longrightarrow> set (recipe_ingredient R') = set ks)"
    by (intro exI [of _ "save_recipe d ?R"] exI [of _ ?R] conjI 1 2 3)
next
  assume a: "(\<forall>ks. data_tag x = Some ks \<longrightarrow> (\<forall>k\<in>set ks. k \<in> set (map tag_id (tags d)))) \<and>
    (\<forall>ks. data_ingredient x = Some ks \<longrightarrow>
       (\<forall>k\<in>set ks. k \<in> set (map ingredient_id (ingredients d)))) \<and>
    (\<forall>f\<in>set (RecipeSerializer_errors d False x).
       (f = ''tag'' \<and> data_tag x \<noteq> None) \<or> (f = ''ingredient'' \<and> data_ingredient x \<noteq> None))"
  then have ok: "RecipeSerializer_errors d False x = []"
    by (intro no_error_when_resolved) blast+
  note ok' = ok [unfolded errors_Nil_iff]
  from create_Inr [OF ok, of req] obtain d' R'
    where c: "RecipeViewSet_create d req x = Inr (d', R')"
      and o: "recipe_user R' = request_user req"
      and t: "recipe_tag R' = m2m_set [] (or_keep (to_option (related_field (map tag_id (tags d))
                              False (is_form x) (data_tag x))) [])"
      and i: "recipe_ingredient R' = m2m_set [] (or_keep (to_option (related_field
                              (map ingredient_id (ingredients d)) False (is_form x)
                              (data_ingredient x))) [])"
    by blast
  have 2: "\<forall>ks. data_tag x = Some ks \<longrightarrow> set (recipe_tag R') = set ks"
    using ok' by (auto simp: t related_field_Some_value set_m2m_set or_keep_def)
  have 3: "\<forall>ks. data_ingredient x = Some ks \<longrightarrow> set (recipe_ingredient R') = set ks"
    using ok' by (auto simp: i related_field_Some_value set_m2m_set or_keep_def)
  show "\<exists>d' R'. RecipeViewSet_create d req x = Inr (d', R') \<and>
         recipe_user R' = request_user req \<and>
         (\<forall>ks. data_tag x = Some ks \<longrightarrow> set (recipe_tag R') = set ks) \<and>
         (\<forall>ks. data_ingredient x = Some ks \<longrightarrow> set (recipe_ingredient R') = set ks)"
    by (intro exI [of _ d'] exI [of _ R'] conjI c o 2 3)
qed

text \<open>
  Tag 9 does not exist and is rejected. User 2 creates a recipe with tags 1 and 4 and
  ingredient 1, all owned by user 1, and the links are stored.
\<close>

theorem related_ids_validation_witness:
  "data_tag ((demo_post ''pie'')\<lparr>data_tag := Some [1, 9]\<rparr>) = Some [1, 9] \<and>
   9 \<notin> set (map tag_id (tags demo_db)) \<and>
   RecipeSerializer_update demo_db demo_cake True ((demo_post ''pie'')\<lparr>data_tag := Some [1, 9]\<rparr>)
     = Inl (ValidationError [''tag'']) \<and>
   RecipeViewSet_create demo_db (demo_request 2 []) ((demo_post ''pie'')\<lparr>data_tag := Some [1, 9]\<rparr>)
     = Inl (ValidationError [''tag'']) \<and>
   (\<exists>fs. RecipeSerializer_update demo_db demo_soup False
           ((demo_post ''pie'')\<lparr>data_tag := Some [1, 9]\<rparr>) = Inl (ValidationError fs)) \<and>
   data_tag (demo_post ''pie'') = Some [1, 4] \<and>
   data_ingredient (demo_post ''pie'') = Some [1] \<and>
   list_all (\<lambda>k. k \<in> set (map tag_id (tags demo_db))) [1, 4] \<and>
   list_all (\<lambda>k. k \<in> set (map ingredient_id (ingredients demo_db))) [1] \<and>
   RecipeSerializer_errors demo_db False (demo_post ''pie'') = [] \<and>
   RecipeViewSet_create demo_db (demo_request 2 []) (demo_post ''pie'') =
     Inr (demo_db\<lparr>recipes := [demo_soup, demo_cake, demo_pie]\<rparr>, demo_pie) \<and>
   recipe_user demo_pie = 2 \<and>
   set (recipe_tag demo_pie) = set [1, 4] \<and>
   set (recipe_ingredient demo_pie) = set [1] \<and>
   map tag_user (filter (\<lambda>t. tag_id t \<in> set (recipe_tag demo_pie)) (tags demo_db)) = [1, 1] \<and>
   (\<exists>d' R'. RecipeSerializer_update demo_db demo_cake False (demo_post ''pie'') = Inr (d', R') \<and>
      set (recipe_tag R') = set [1, 4])"
proof -
  let ?bad = "(demo_post ''pie'')\<lparr>data_tag := Some [1, 9]\<rparr>"
  let ?x = "demo_post ''pie''"
  have a1: "data_tag ?bad = Some [1, 9]" by simp
  have a2: "9 \<notin> set (map tag_id (tags demo_db))" by (simp add: demo_defs demo_post_def demo_pie_def)
  have a3: "RecipeSerializer_update demo_db demo_cake True ?bad = Inl (ValidationError [''tag''])"
    by (simp add: demo_defs demo_post_def demo_pie_def serializer_defs)
  have a4: "RecipeViewSet_create demo_db (demo_request 2 []) ?bad = Inl (ValidationError [''tag''])"
    by (simp add: demo_defs demo_post_def demo_pie_def serializer_defs)
  from a1 a2 have a5: "(\<exists>ks. data_tag ?bad = Some ks \<and>
        (\<exists>k\<in>set ks. k \<notin> set (map tag_id (tags demo_db)))) \<or>
      (\<exists>ks. data_ingredient ?bad = Some ks \<and>
        (\<exists>k\<in>set ks. k \<notin> set (map ingredient_id (ingredients demo_db))))"
    by simp
  from related_ids_validation [of ?bad demo_db demo_soup False "demo_request 2 []",
      THEN conjunct1, rule_format, OF a5]
  have a6: "\<exists>fs. RecipeSerializer_update demo_db demo_soup False ?bad = Inl (ValidationError fs)"
    by (rule conjunct1)
  have b1: "data_tag ?x = Some [1, 4]" by (simp add: demo_post_def)
  have b2: "data_ingredient ?x = Some [1]" by (simp add: demo_post_def)
  have b3: "list_all (\<lambda>k. k \<in> set (map tag_id (tags demo_db))) [1, 4]"
    by (simp add: demo_defs demo_post_def demo_pie_def)
  have b4: "list_all (\<lambda>k. k \<in> set (map ingredient_id (ingredients demo_db))) [1]"
    by (simp add: demo_defs demo_post_def demo_pie_def)
  have b5: "RecipeSerializer_errors demo_db False ?x = []"
    by (simp add: demo_defs demo_post_def demo_pie_def serializer_defs)
  have b6: "RecipeViewSet_create demo_db (demo_request 2 []) ?x =
      Inr (demo_db\<lparr>recipes := [demo_soup, demo_cake, demo_pie]\<rparr>, demo_pie)"
    by (simp add: demo_defs demo_post_def demo_pie_def serializer_defs)
  have h1: "\<forall>ks. data_tag ?x = Some ks \<longrightarrow> (\<forall>k\<in>set ks. k \<in> set (map tag_id (tags demo_db)))"
    using b3 by (simp add: b1)
  have h2: "\<forall>ks. data_ingredient ?x = Some ks \<longrightarrow>
      (\<forall>k\<in>set ks. k \<in> set (map ingredient_id (ingredients demo_db)))"
    using b4 by (simp add: b2)
  have h3: "\<forall>f\<in>set (RecipeSerializer_errors demo_db False ?x).
      (f = ''tag'' \<and> data_tag ?x \<noteq> None) \<or> (f = ''ingredient'' \<and> data_ingredient ?x \<noteq> None)"
    by (simp add: b5)
  note t = related_ids_validation [of ?x demo_db demo_cake False "demo_request 2 []"]
  from t [THEN conjunct2, THEN conjunct2, rule_format, OF conjI [OF h1 conjI [OF h2 h3]]]
  obtain d' R' where "RecipeViewSet_create demo_db (demo_request 2 []) ?x = Inr (d', R')"
    and r: "recipe_user R' = request_user (demo_request 2 [])"
      "\<forall>ks. data_tag ?x = Some ks \<longrightarrow> set (recipe_tag R') = set ks"
      "\<forall>ks. data_ingredient ?x = Some ks \<longrightarrow> set (recipe_ingredient R') = set ks"
    by (elim exE conjE)
  with b6 have "R' = demo_pie" by simp
  with r b1 b2 have c1: "recipe_user demo_pie = 2" and c2: "set (recipe_tag demo_pie) = set [1, 4]"
    and c3: "set (recipe_ingredient demo_pie) = set [1]"
    by (simp_all add: demo_request_def)
  have c4: "map tag_user (filter (\<lambda>t. tag_id t \<in> set (recipe_tag demo_pie)) (tags demo_db)) = [1, 1]"
    by (simp add: demo_defs demo_post_def demo_pie_def)
  from t [THEN conjunct2, THEN conjunct1, rule_format, OF conjI [OF h1 conjI [OF h2 h3]]] b1
  have c5: "\<exists>d' R'. RecipeSerializer_update demo_db demo_cake False ?x = Inr (d', R') \<and>
      set (recipe_tag R') = set [1, 4]"
    by (elim exE conjE) (intro exI conjI, assumption, simp)
  show ?thesis by (intro conjI a1 a2 a3 a4 a6 b1 b2 b3 b4 b5 b6 c1 c2 c3 c4 c5)
qed

text \<open>
  The claim as it was stated, that the request fails only if a listed id does not
  resolve, fails for a payload with a blank title: every listed id exists, and create,
  full update and partial update all end in a \<open>ValidationError\<close> on \<open>title\<close>.
\<close>

theorem related_ids_iff_counterexample:
  "data_tag (demo_post []) = Some [1, 4] \<and>
   data_ingredient (demo_post []) = Some [1] \<and>
   list_all (\<lambda>k. k \<in> set (map tag_id (tags demo_db))) [1, 4] \<and>
   list_all (\<lambda>k. k \<in> set (map ingredient_id (ingredients demo_db))) [1] \<and>
   RecipeViewSet_create demo_db (demo_request 2 []) (demo_post []) =
     Inl (ValidationError [''title'']) \<and>
   RecipeSerializer_update demo_db demo_cake False (demo_post []) =
     Inl (ValidationError [''title'']) \<and>
   RecipeSerializer_update demo_db demo_cake True (demo_post []) =
     Inl (ValidationError [''title''])"
  by (simp add: demo_defs demo_post_def serializer_defs)

end
